theory Spec2Isabelle
  imports Main "HOL-Library.Monad_Syntax" "HOL-Library.Sublist"
begin

section \<open>Strings and numbers of the host language\<close>

text \<open>
  A \<^typ>\<open>string\<close> stands for a JavaScript string, one \<^typ>\<open>char\<close> per code unit
  (code units below 256 only). Numbers that the program uses as counters, process
  identifiers, exit codes and versions are integers.
\<close>

definition nl :: string where
  "nl = [CHR 0x0A]"

definition dq :: string where
  "dq = [CHR 0x22]"

text \<open>The dash of the message templates (U+2014), written as its three UTF-8 bytes.\<close>

definition em_dash :: string where
  "em_dash = [CHR 0xE2, CHR 0x80, CHR 0x94]"

text \<open>\<^verbatim>\<open>String.prototype.trim\<close>: white space and line terminators below code unit 256.\<close>

definition is_space :: "char \<Rightarrow> bool" where
  "is_space c = (c \<in> set [CHR 0x09, CHR 0x0A, CHR 0x0B, CHR 0x0C, CHR 0x0D, CHR 0x20, CHR 0xA0])"

definition trim :: "string \<Rightarrow> string" where
  "trim s = rev (dropWhile is_space (rev (dropWhile is_space s)))"

text \<open>\<^verbatim>\<open>xs.slice(0, e)\<close> for an integer \<open>e\<close>: a negative end counts from the back.\<close>

definition slice0 :: "'a list \<Rightarrow> int \<Rightarrow> 'a list" where
  "slice0 xs e = (if e < 0 then take (nat (int (length xs) + e)) xs else take (nat e) xs)"

text \<open>\<^verbatim>\<open>lines.join(sep)\<close>.\<close>

fun join_with :: "string \<Rightarrow> string list \<Rightarrow> string" where
  "join_with sep [] = []"
| "join_with sep [x] = x"
| "join_with sep (x # y # ys) = x @ sep @ join_with sep (y # ys)"

text \<open>\<^verbatim>\<open>String(n)\<close> for an integer \<open>n\<close> of less than 22 digits: decimal digits, with a
  sign when negative.\<close>

definition digit_char :: "nat \<Rightarrow> char" where
  "digit_char d = ''0123456789'' ! d"

fun String_of_nat :: "nat \<Rightarrow> string" where
  "String_of_nat n =
     (if n < 10 then [digit_char n] else String_of_nat (n div 10) @ [digit_char (n mod 10)])"

declare String_of_nat.simps [simp del]

definition String_of_int :: "int \<Rightarrow> string" where
  "String_of_int i = (if i < 0 then ''-'' @ String_of_nat (nat (- i)) else String_of_nat (nat i))"



text \<open>\<^verbatim>\<open>path.join(a, b)\<close> on already normal segments.\<close>

definition join_path :: "string \<Rightarrow> string \<Rightarrow> string" where
  "join_path a b = a @ ''/'' @ b"

text \<open>Truthiness of an optional string and of an optional number.\<close>

definition truthy_str :: "string option \<Rightarrow> bool" where
  "truthy_str v = (case v of None \<Rightarrow> False | Some s \<Rightarrow> s \<noteq> [])"

definition truthy_num :: "int option \<Rightarrow> bool" where
  "truthy_num v = (case v of None \<Rightarrow> False | Some n \<Rightarrow> n \<noteq> 0)"

definition truthy_bool :: "bool option \<Rightarrow> bool" where
  "truthy_bool v = (case v of None \<Rightarrow> False | Some b \<Rightarrow> b)"


section \<open>The data model (types.ts)\<close>

record Versioned =
  schema_version :: int

record DispatchOptions =
  yolo :: "bool option"
  timeout :: "int option"
  workdir :: "string option"
  follow_up :: "bool option"

text \<open>
  \<open>DispatchStatus\<close> is a union of string literals. The program compares a status with
  string literals and stores the trimmed text of a marker file as a status without a
  check, so a status is a string here; an optional field is \<open>None\<close> when it is
  \<^verbatim>\<open>undefined\<close> or absent.
\<close>

type_synonym DispatchStatus = string

record DispatchTask =
  id' :: string
  model :: string
  prompt :: string
  options :: "DispatchOptions option"
  session_dir :: string
  output_file :: string
  status :: DispatchStatus
  pid :: "int option"
  exit_code :: "int option"
  duration_s :: "int option"
  "output" :: "string option"
  created_at :: string
  completed_at :: "string option"
  error :: "string option"

record DispatchesStore = Versioned +
  tasks :: "DispatchTask list"

definition is_terminal :: "DispatchStatus \<Rightarrow> bool" where
  "is_terminal s = (s = ''completed'' \<or> s = ''failed'' \<or> s = ''cancelled'' \<or> s = ''timeout'')"



section \<open>The world outside the controller\<close>

text \<open>
  A path of the file system holds nothing, a readable text, or something that exists but
  whose reading raises (a directory, a file without read permission). Writing a file is
  taken to succeed, and so is the creation of a session directory by \<open>dispatch\<close>, which
  leaves the model's world as it is. The creation of the storage directory may raise: see
  \<open>ensureStorageDir\<close>.
\<close>

datatype fnode = Text string | Unreadable

text \<open>What \<^verbatim>\<open>process.kill(pid, 0)\<close> does: return, or raise one of the two errors.\<close>

datatype kill_result = Delivered | ESRCH | EPERM

text \<open>One call of \<^verbatim>\<open>spawn\<close>: the command, its argument vector and the added environment.\<close>

record spawn_req =
  command :: string
  argv :: "string list"
  env_added :: "(string \<times> string) list"

text \<open>
  \<open>bridge_models\<close> is what \<^verbatim>\<open>readBridgeConfig()\<close> yields: \<open>None\<close> for no usable
  configuration, \<open>Some None\<close> for a configuration without \<open>models\<close>, and otherwise the keys
  of \<open>models\<close> in order, each with the truthiness of its value.
\<close>

record world =
  files :: "string \<rightharpoonup> fnode"
  kill0 :: "int \<Rightarrow> kill_result"
  homedir :: string
  bridge_models :: "(string \<times> bool) list option option"
  spawned :: "spawn_req list"

definition existsSync :: "world \<Rightarrow> string \<Rightarrow> bool" where
  "existsSync w p = (files w p \<noteq> None)"

definition writeFileSync :: "string \<Rightarrow> string \<Rightarrow> world \<Rightarrow> world" where
  "writeFileSync p content w = w\<lparr>files := (files w)(p \<mapsto> Text content)\<rparr>"

definition renameSync :: "string \<Rightarrow> string \<Rightarrow> world \<Rightarrow> world" where
  "renameSync src dst w = w\<lparr>files := ((files w)(dst := files w src))(src := None)\<rparr>"


section \<open>The Durable Store (storage.ts)\<close>

text \<open>
  \<^verbatim>\<open>JSON.stringify\<close> and \<^verbatim>\<open>JSON.parse\<close> belong to the platform, not to the repository: they
  are a parameter, at the type of the document. \<open>JSON_parse\<close> is \<open>None\<close> where the platform
  raises, or yields a value that is no document and makes the version check raise.
\<close>

record 'd json_codec =
  JSON_stringify :: "'d \<Rightarrow> string"
  JSON_parse :: "string \<Rightarrow> 'd option"

definition roundtrips :: "'d json_codec \<Rightarrow> 'd \<Rightarrow> bool" where
  "roundtrips J d = (JSON_parse J (JSON_stringify J d) = Some d)"

definition lossless :: "'d json_codec \<Rightarrow> bool" where
  "lossless J = (\<forall>d. roundtrips J d)"

definition STORAGE_DIR :: "world \<Rightarrow> string" where
  "STORAGE_DIR w = join_path (join_path (homedir w) ''.claude'') ''orchestrator''"

definition storagePath :: "world \<Rightarrow> string \<Rightarrow> string" where
  "storagePath w filename = join_path (STORAGE_DIR w) filename"

definition atomicWrite :: "'d json_codec \<Rightarrow> string \<Rightarrow> 'd \<Rightarrow> world \<Rightarrow> world" where
  "atomicWrite J filename data w =
     (let target = storagePath w filename;
          tmp = target @ ''.tmp'';
          json = JSON_stringify J data
      in renameSync tmp target (writeFileSync tmp json w))"

text \<open>
  \<open>ensureStorageDir\<close>: nothing to do when the storage directory exists; otherwise
  \<^verbatim>\<open>mkdirSync\<close> creates it or raises, which is an input of the model. The result is \<open>None\<close>
  when the call raises. A directory is a path whose reading raises.
\<close>

datatype mkdir_outcome = Created | Refused

definition ensureStorageDir :: "mkdir_outcome \<Rightarrow> world \<Rightarrow> world option" where
  "ensureStorageDir mk w =
     (if \<not> existsSync w (STORAGE_DIR w)
      then (case mk of
              Created \<Rightarrow> Some (w\<lparr>files := (files w)(STORAGE_DIR w \<mapsto> Unreadable)\<rparr>)
            | Refused \<Rightarrow> None)
      else Some w)"

text \<open>
  \<open>atomicWrite\<close> above and \<open>readStore\<close> and \<open>updateStore\<close> below are the functions from the
  line after their call of \<open>ensureStorageDir()\<close> on, in a world where that call has returned: they
  are what the handlers of the dispatch subsystem run on. The whole call of \<open>readStore\<close>,
  with \<open>ensureStorageDir()\<close> in front of the \<^verbatim>\<open>try\<close> block, is \<open>readStore_call\<close>.

  The body of the \<^verbatim>\<open>try\<close> block of \<open>readStore\<close>: \<open>None\<close> when it raises.
\<close>

definition readStore_try ::
  "('a Versioned_scheme) json_codec \<Rightarrow> world \<Rightarrow> string \<Rightarrow> 'a Versioned_scheme
     \<Rightarrow> 'a Versioned_scheme option" where
  "readStore_try J w target defaultValue =
     (case files w target of
        None \<Rightarrow> None
      | Some Unreadable \<Rightarrow> None
      | Some (Text raw) \<Rightarrow>
          (case JSON_parse J raw of
             None \<Rightarrow> None
           | Some parsed \<Rightarrow>
               Some (if schema_version parsed \<noteq> schema_version defaultValue
                     then parsed\<lparr>schema_version := schema_version defaultValue\<rparr>
                     else parsed)))"

definition readStore ::
  "('a Versioned_scheme) json_codec \<Rightarrow> world \<Rightarrow> string \<Rightarrow> 'a Versioned_scheme
     \<Rightarrow> 'a Versioned_scheme" where
  "readStore J w filename defaultValue =
     (let target = storagePath w filename
      in if \<not> existsSync w target then defaultValue
         else (case readStore_try J w target defaultValue of
                 None \<Rightarrow> defaultValue
               | Some parsed \<Rightarrow> parsed))"

text \<open>The whole call \<^verbatim>\<open>readStore(filename, defaultValue)\<close>: \<open>None\<close> when it raises, and
  otherwise the world it leaves and the document it returns.\<close>

definition readStore_call ::
  "('a Versioned_scheme) json_codec \<Rightarrow> mkdir_outcome \<Rightarrow> world \<Rightarrow> string \<Rightarrow> 'a Versioned_scheme
     \<Rightarrow> (world \<times> 'a Versioned_scheme) option" where
  "readStore_call J mk w filename defaultValue =
     (case ensureStorageDir mk w of
        None \<Rightarrow> None
      | Some w' \<Rightarrow> Some (w', readStore J w' filename defaultValue))"

definition updateStore ::
  "('a Versioned_scheme) json_codec \<Rightarrow> string \<Rightarrow> 'a Versioned_scheme
     \<Rightarrow> ('a Versioned_scheme \<Rightarrow> 'a Versioned_scheme) \<Rightarrow> world \<Rightarrow> world \<times> 'a Versioned_scheme" where
  "updateStore J filename defaultValue updater w =
     (let current = readStore J w filename defaultValue;
          updated = updater current
      in (atomicWrite J filename updated w, updated))"


section \<open>Tool results and identifiers (util.ts)\<close>

record tool_result =
  content_text :: string
  isError :: bool

definition ok :: "string \<Rightarrow> tool_result" where
  "ok t = \<lparr>content_text = t, isError = False\<rparr>"

definition err :: "string \<Rightarrow> tool_result" where
  "err t = \<lparr>content_text = t, isError = True\<rparr>"

text \<open>\<open>genId\<close>: the prefix, an underscore and the hexadecimal text of four random bytes,
  which is an input of the model.\<close>

definition genId :: "string \<Rightarrow> string \<Rightarrow> string" where
  "genId pfx hex = pfx @ ''_'' @ hex"


section \<open>The dispatch subsystem (tools/dispatch.ts)\<close>

definition FILE :: string where
  "FILE = ''dispatches.json''"

definition DEFAULT :: DispatchesStore where
  "DEFAULT = \<lparr>schema_version = 1, tasks = []\<rparr>"

definition orchestration_dir :: "world \<Rightarrow> string" where
  "orchestration_dir w = join_path (join_path (homedir w) ''.claude'') ''orchestration''"

definition WRAPPER_PATH :: "world \<Rightarrow> string" where
  "WRAPPER_PATH w = join_path (join_path (orchestration_dir w) ''templates'') ''dispatch-wrapper.sh''"

definition SESSION_BASE :: "world \<Rightarrow> string" where
  "SESSION_BASE w = join_path (orchestration_dir w) ''sessions''"

definition readBridgeConfig :: "world \<Rightarrow> (string \<times> bool) list option option" where
  "readBridgeConfig w = bridge_models w"

definition markerPath :: "string \<Rightarrow> string \<Rightarrow> string" where
  "markerPath sessionDir taskId = join_path sessionDir (''.task-'' @ taskId @ ''.state'')"

definition writeMarker :: "string \<Rightarrow> string \<Rightarrow> DispatchStatus \<Rightarrow> world \<Rightarrow> world" where
  "writeMarker sessionDir taskId st w = writeFileSync (markerPath sessionDir taskId) st w"

definition readMarker :: "world \<Rightarrow> string \<Rightarrow> string \<Rightarrow> DispatchStatus option" where
  "readMarker w sessionDir taskId =
     (case files w (markerPath sessionDir taskId) of
        None \<Rightarrow> None
      | Some Unreadable \<Rightarrow> None
      | Some (Text c) \<Rightarrow> Some (trim c))"

definition isProcessAlive :: "world \<Rightarrow> int \<Rightarrow> bool" where
  "isProcessAlive w p = (case kill0 w p of Delivered \<Rightarrow> True | ESRCH \<Rightarrow> False | EPERM \<Rightarrow> False)"

definition readOutputFile :: "world \<Rightarrow> string \<Rightarrow> string option" where
  "readOutputFile w path =
     (case files w path of
        None \<Rightarrow> None
      | Some Unreadable \<Rightarrow> None
      | Some (Text c) \<Rightarrow>
          Some (if length c > 50000 then take 50000 c @ nl @ ''...[truncated]'' else c))"

text \<open>The callback that \<open>recoverOrphanedTasks\<close> maps over the tasks; \<open>now\<close> is \<open>nowISO()\<close>.\<close>

definition recover_task :: "world \<Rightarrow> string \<Rightarrow> DispatchTask \<Rightarrow> DispatchTask" where
  "recover_task w now t =
     (if status t \<noteq> ''running'' \<and> status t \<noteq> ''created'' then t
      else
        let marker = readMarker w (session_dir t) (id' t)
        in if marker = Some ''completed'' \<or> marker = Some ''failed'' then
             t\<lparr>status := (case marker of Some m \<Rightarrow> m | None \<Rightarrow> status t),
               completed_at := Some now,
               output := (if marker = Some ''completed''
                          then readOutputFile w (output_file t) else None),
               error := (if marker = Some ''failed''
                         then Some ''Recovered from orphaned state'' else None)\<rparr>
           else if truthy_num (pid t) \<and> (case pid t of None \<Rightarrow> False | Some p \<Rightarrow> isProcessAlive w p)
             then t
           else
             t\<lparr>status := ''failed'', completed_at := Some now,
               error := Some ''Orphaned task recovered on startup (process not alive)''\<rparr>)"

definition recoverOrphanedTasks :: "DispatchesStore json_codec \<Rightarrow> string \<Rightarrow> world \<Rightarrow> world" where
  "recoverOrphanedTasks J now w =
     (let store = readStore J w FILE DEFAULT;
          running = filter (\<lambda>t. status t = ''running'' \<or> status t = ''created'') (tasks store)
      in if length running = 0 then w
         else fst (updateStore J FILE DEFAULT
                     (\<lambda>s. s\<lparr>tasks := map (recover_task w now) (tasks s)\<rparr>) w))"

subsection \<open>dispatch\<close>

record dispatch_args =
  arg_model :: "string option"
  arg_prompt :: "string option"
  arg_options :: "DispatchOptions option"

text \<open>What \<^verbatim>\<open>spawn\<close> does: return a child, whose \<open>pid\<close> may be undefined, or raise an
  error with a message.\<close>

datatype spawn_outcome = Child "int option" | SpawnError string

definition no_options :: DispatchOptions where
  "no_options = \<lparr>yolo = None, timeout = None, workdir = None, follow_up = None\<rparr>"

text \<open>
  \<^verbatim>\<open>models[model]\<close> is truthy for an own key with a truthy value, and for a name that is no
  own key but a property of \<^verbatim>\<open>Object.prototype\<close>.
\<close>

definition Object_prototype_keys :: "string list" where
  "Object_prototype_keys =
     [''constructor'', ''__defineGetter__'', ''__defineSetter__'', ''hasOwnProperty'',
      ''__lookupGetter__'', ''__lookupSetter__'', ''isPrototypeOf'', ''propertyIsEnumerable'',
      ''toString'', ''valueOf'', ''__proto__'', ''toLocaleString'']"

definition truthy_member :: "(string \<times> bool) list \<Rightarrow> string \<Rightarrow> bool" where
  "truthy_member models m =
     (case map_of models m of
        None \<Rightarrow> m \<in> set Object_prototype_keys
      | Some b \<Rightarrow> b)"

definition unknown_model :: "world \<Rightarrow> string \<Rightarrow> string option" where
  "unknown_model w m =
     (case readBridgeConfig w of
        None \<Rightarrow> None
      | Some None \<Rightarrow> None
      | Some (Some models) \<Rightarrow>
          (if truthy_member models m then None
           else Some (''Unknown model '' @ dq @ m @ dq @ ''. Available: ''
                      @ join_with '', '' (map fst models))))"

definition new_task ::
  "string \<Rightarrow> string \<Rightarrow> string \<Rightarrow> DispatchOptions \<Rightarrow> string \<Rightarrow> string \<Rightarrow> string \<Rightarrow> DispatchTask" where
  "new_task taskId m p opts sessionDir outputFile now =
     \<lparr>id' = taskId, model = m,
      prompt = (if length p > 500 then take 497 p @ ''...'' else p),
      options = Some opts, session_dir = sessionDir, output_file = outputFile,
      status = ''created'', pid = None, exit_code = None, duration_s = None, output = None,
      created_at = now, completed_at = None, error = None\<rparr>"

definition wrapperArgs :: "world \<Rightarrow> string \<Rightarrow> string \<Rightarrow> string \<Rightarrow> DispatchOptions \<Rightarrow> string \<Rightarrow> string list" where
  "wrapperArgs w m sessionDir p opts outputFile =
     [WRAPPER_PATH w, m, sessionDir,
      (if truthy_str (workdir opts) then (case workdir opts of Some d \<Rightarrow> d | None \<Rightarrow> homedir w)
       else homedir w),
      p]
     @ (if truthy_bool (yolo opts) then [''--yolo''] else [])
     @ (case timeout opts of
          None \<Rightarrow> []
        | Some n \<Rightarrow> if n \<noteq> 0 then [''--timeout'', String_of_int n] else [])
     @ (if truthy_bool (follow_up opts) then [''--follow-up''] else [])
     @ [''--output'', outputFile]"

definition spawn_request :: "world \<Rightarrow> string \<Rightarrow> string \<Rightarrow> string \<Rightarrow> string \<Rightarrow> DispatchOptions \<Rightarrow> string \<Rightarrow> string \<Rightarrow> spawn_req" where
  "spawn_request w taskId m sessionDir p opts outputFile promptFile =
     \<lparr>command = ''bash'',
      argv = wrapperArgs w m sessionDir p opts outputFile,
      env_added = [(''ORCH_TASK_ID'', taskId), (''ORCH_SESSION_DIR'', sessionDir),
                   (''ORCH_PROMPT'', p), (''ORCH_PROMPT_FILE'', promptFile)]\<rparr>"

definition show_pid :: "int option \<Rightarrow> string" where
  "show_pid p = (case p of None \<Rightarrow> ''undefined'' | Some n \<Rightarrow> String_of_int n)"

definition save_task :: "DispatchesStore json_codec \<Rightarrow> DispatchTask \<Rightarrow> world \<Rightarrow> world" where
  "save_task J task w =
     fst (updateStore J FILE DEFAULT (\<lambda>s. s\<lparr>tasks := tasks s @ [task]\<rparr>) w)"

text \<open>
  The handler of \<open>dispatch\<close>, with the worlds it passes through in order: the world at the
  call, then the world after each effect (the prompt file, the call of \<^verbatim>\<open>spawn\<close>, the
  marker, the write of the Ledger). \<open>hex\<close> is the random part of the identifier, \<open>now\<close> the
  clock and \<open>outcome\<close> what \<^verbatim>\<open>spawn\<close> does.
\<close>

definition dispatch_run ::
  "DispatchesStore json_codec \<Rightarrow> string \<Rightarrow> string \<Rightarrow> spawn_outcome \<Rightarrow> dispatch_args \<Rightarrow> world
     \<Rightarrow> world list \<times> tool_result" where
  "dispatch_run J hex now outcome args w =
     (let opts = (case arg_options args of None \<Rightarrow> no_options | Some v \<Rightarrow> v)
      in case (arg_model args, arg_prompt args) of
           (Some m, Some p) \<Rightarrow>
             if m = [] \<or> p = [] then ([w], err ''model and prompt are required'')
             else (case unknown_model w m of
                     Some msg \<Rightarrow> ([w], err msg)
                   | None \<Rightarrow>
                       if \<not> existsSync w (WRAPPER_PATH w)
                       then ([w], err (''Dispatch wrapper not found at '' @ WRAPPER_PATH w))
                       else
                         let taskId = genId ''dsp'' hex;
                             sessionDir = join_path (SESSION_BASE w) taskId;
                             outputFile = join_path sessionDir (m @ ''-turn-0001.md'');
                             promptFile = join_path sessionDir ''prompt.txt'';
                             w1 = writeFileSync promptFile p w;
                             task = new_task taskId m p opts sessionDir outputFile now;
                             req = spawn_request w taskId m sessionDir p opts outputFile promptFile;
                             w2 = w1\<lparr>spawned := spawned w1 @ [req]\<rparr>
                         in (case outcome of
                               Child cp \<Rightarrow>
                                 let task' = task\<lparr>pid := cp, status := ''running''\<rparr>;
                                     w3 = writeMarker sessionDir taskId ''running'' w2;
                                     w4 = save_task J task' w3
                                 in ([w, w1, w2, w3, w4],
                                     ok (''Dispatched to '' @ m @ '' '' @ em_dash @ '' task_id: **''
                                         @ taskId @ ''** (PID: '' @ show_pid cp @ '')'' @ nl
                                         @ ''Session: '' @ sessionDir))
                             | SpawnError msg \<Rightarrow>
                                 let e = ''Failed to spawn: '' @ msg;
                                     task' = task\<lparr>status := ''failed'', error := Some e\<rparr>;
                                     w4 = save_task J task' w2
                                 in ([w, w1, w2, w4], err (''Dispatch failed: '' @ e))))
         | _ \<Rightarrow> ([w], err ''model and prompt are required''))"

definition dispatch ::
  "DispatchesStore json_codec \<Rightarrow> string \<Rightarrow> string \<Rightarrow> spawn_outcome \<Rightarrow> dispatch_args \<Rightarrow> world
     \<Rightarrow> world \<times> tool_result" where
  "dispatch J hex now outcome args w =
     (case dispatch_run J hex now outcome args w of (ws, r) \<Rightarrow> (last ws, r))"

text \<open>The exit observer that \<open>dispatch\<close> installs on the child; \<open>code\<close> is the exit code,
  \<open>None\<close> for \<^verbatim>\<open>null\<close>.\<close>

definition on_exit ::
  "DispatchesStore json_codec \<Rightarrow> string \<Rightarrow> string \<Rightarrow> string \<Rightarrow> string \<Rightarrow> int option \<Rightarrow> world \<Rightarrow> world" where
  "on_exit J now taskId sessionDir outputFile code w =
     (let finalStatus = (if code = Some 0 then ''completed'' else ''failed'');
          w1 = writeMarker sessionDir taskId finalStatus w
      in fst (updateStore J FILE DEFAULT
                (\<lambda>s. s\<lparr>tasks := map (\<lambda>t.
                     if id' t = taskId
                     then t\<lparr>status := finalStatus,
                            exit_code := Some (case code of None \<Rightarrow> 1 | Some c \<Rightarrow> c),
                            completed_at := Some now,
                            output := (if finalStatus = ''completed''
                                       then readOutputFile w1 outputFile else None),
                            error := (if finalStatus = ''failed''
                                      then Some (''Process exited with code ''
                                                 @ (case code of None \<Rightarrow> ''null''
                                                    | Some c \<Rightarrow> String_of_int c))
                                      else None)\<rparr>
                     else t) (tasks s)\<rparr>) w1))"

subsection \<open>get\_dispatch\_result\<close>

definition find_task :: "string \<Rightarrow> DispatchesStore \<Rightarrow> DispatchTask option" where
  "find_task taskId store = find (\<lambda>t. id' t = taskId) (tasks store)"

text \<open>
  The reconciliation step of the handler. The second component is the task the handler
  goes on with; it is \<open>None\<close> when the task is not found in the store read back, where
  the handler raises at its next property access.
\<close>

definition reconcile ::
  "DispatchesStore json_codec \<Rightarrow> string \<Rightarrow> string \<Rightarrow> DispatchTask \<Rightarrow> world
     \<Rightarrow> world \<times> DispatchTask option" where
  "reconcile J now taskId task w =
     (if status task = ''running'' then
        let marker = readMarker w (session_dir task) (id' task)
        in if truthy_str marker \<and> marker \<noteq> Some ''running'' then
             let out = (if marker = Some ''completed''
                        then readOutputFile w (output_file task) else None);
                 w' = fst (updateStore J FILE DEFAULT
                        (\<lambda>s. s\<lparr>tasks := map (\<lambda>t.
                             if id' t = taskId
                             then t\<lparr>status := (case marker of Some m \<Rightarrow> m | None \<Rightarrow> status t),
                                    completed_at := Some now, output := out\<rparr>
                             else t) (tasks s)\<rparr>) w)
             in (w', find_task taskId (readStore J w' FILE DEFAULT))
           else if truthy_num (pid task)
                   \<and> \<not> (case pid task of None \<Rightarrow> False | Some p \<Rightarrow> isProcessAlive w p) then
             let out = readOutputFile w (output_file task);
                 st = (if truthy_str out then ''completed'' else ''failed'');
                 w' = fst (updateStore J FILE DEFAULT
                        (\<lambda>s. s\<lparr>tasks := map (\<lambda>t.
                             if id' t = taskId
                             then t\<lparr>status := st, completed_at := Some now, output := out,
                                    error := (if st = ''failed''
                                              then Some ''Process exited without marker''
                                              else None)\<rparr>
                             else t) (tasks s)\<rparr>) w)
             in (w', find_task taskId (readStore J w' FILE DEFAULT))
           else (w, Some task)
      else (w, Some task))"

definition display_output :: "string \<Rightarrow> string" where
  "display_output s = (if length s > 2000 then take 1997 s @ ''...'' else s)"

definition output_lines :: "world \<Rightarrow> DispatchTask \<Rightarrow> string list" where
  "output_lines w task =
     (if truthy_str (output task) then
        (case output task of
           Some out \<Rightarrow> [nl @ ''**Output**:'' @ nl @ display_output out]
         | None \<Rightarrow> [])
      else if status task = ''completed'' \<and> output_file task \<noteq> [] then
        (let fresh = readOutputFile w (output_file task)
         in if truthy_str fresh then
              (case fresh of
                 Some f \<Rightarrow> [nl @ ''**Output**:'' @ nl @ display_output f]
               | None \<Rightarrow> [])
            else [''**Output file**: '' @ output_file task])
      else [])"

definition result_lines :: "world \<Rightarrow> DispatchTask \<Rightarrow> string list" where
  "result_lines w task =
     [''**Task**: '' @ id' task,
      ''**Model**: '' @ model task,
      ''**Status**: '' @ status task,
      ''**Created**: '' @ created_at task]
     @ (case completed_at task of
          None \<Rightarrow> []
        | Some c \<Rightarrow> if c \<noteq> [] then [''**Completed**: '' @ c] else [])
     @ (case duration_s task of
          None \<Rightarrow> []
        | Some d \<Rightarrow> [''**Duration**: '' @ String_of_int d @ ''s''])
     @ (case exit_code task of
          None \<Rightarrow> []
        | Some c \<Rightarrow> [''**Exit code**: '' @ String_of_int c])
     @ (case error task of
          None \<Rightarrow> []
        | Some e \<Rightarrow> if e \<noteq> [] then [''**Error**: '' @ e] else [])
     @ output_lines w task"

text \<open>The handler; its result is \<open>None\<close> when it raises.\<close>

definition get_dispatch_result ::
  "DispatchesStore json_codec \<Rightarrow> string \<Rightarrow> string option \<Rightarrow> world
     \<Rightarrow> world \<times> tool_result option" where
  "get_dispatch_result J now arg_task_id w =
     (if \<not> truthy_str arg_task_id then (w, Some (err ''task_id is required''))
      else case arg_task_id of
        None \<Rightarrow> (w, Some (err ''task_id is required''))
      | Some taskId \<Rightarrow>
          (case find_task taskId (readStore J w FILE DEFAULT) of
             None \<Rightarrow> (w, Some (err (''Task '' @ dq @ taskId @ dq @ '' not found'')))
           | Some task \<Rightarrow>
               (case reconcile J now taskId task w of
                  (w', None) \<Rightarrow> (w', None)
                | (w', Some task') \<Rightarrow> (w', Some (ok (join_with nl (result_lines w' task')))))))"

subsection \<open>retry\_dispatch\<close>

definition retry_dispatch ::
  "DispatchesStore json_codec \<Rightarrow> string \<Rightarrow> string \<Rightarrow> spawn_outcome \<Rightarrow> string option \<Rightarrow> world
     \<Rightarrow> world \<times> tool_result" where
  "retry_dispatch J hex now outcome arg_task_id w =
     (if \<not> truthy_str arg_task_id then (w, err ''task_id is required'')
      else case arg_task_id of
        None \<Rightarrow> (w, err ''task_id is required'')
      | Some taskId \<Rightarrow>
          (case find_task taskId (readStore J w FILE DEFAULT) of
             None \<Rightarrow> (w, err (''Task '' @ dq @ taskId @ dq @ '' not found''))
           | Some task \<Rightarrow>
               if status task \<noteq> ''failed'' \<and> status task \<noteq> ''cancelled'' then
                 (w, err (''Task '' @ dq @ taskId @ dq @ '' is '' @ status task
                          @ '', can only retry failed/cancelled tasks''))
               else
                 dispatch J hex now outcome
                   \<lparr>arg_model = Some (model task), arg_prompt = Some (prompt task),
                    arg_options = Some (case options task of None \<Rightarrow> no_options | Some v \<Rightarrow> v)\<rparr>
                   w))"

subsection \<open>list\_dispatches\<close>

record list_args =
  list_model :: "string option"
  list_status :: "string option"
  list_limit :: "int option"

definition effective_limit :: "int option \<Rightarrow> int" where
  "effective_limit l = (if truthy_num l then (case l of Some n \<Rightarrow> n | None \<Rightarrow> 20) else 20)"

definition list_matching :: "DispatchesStore json_codec \<Rightarrow> list_args \<Rightarrow> world \<Rightarrow> DispatchTask list" where
  "list_matching J args w =
     (let store = readStore J w FILE DEFAULT;
          ts0 = rev (tasks store);
          ts1 = (if truthy_str (list_model args)
                 then filter (\<lambda>t. Some (model t) = list_model args) ts0 else ts0)
      in if truthy_str (list_status args)
         then filter (\<lambda>t. Some (status t) = list_status args) ts1 else ts1)"

definition list_selected :: "DispatchesStore json_codec \<Rightarrow> list_args \<Rightarrow> world \<Rightarrow> DispatchTask list" where
  "list_selected J args w =
     (let limit = effective_limit (list_limit args)
      in slice0 (list_matching J args w) limit)"

definition list_line :: "DispatchTask \<Rightarrow> string" where
  "list_line t =
     ''- **'' @ id' t @ ''** ['' @ model t @ ''] '' @ status t @ '' '' @ em_dash @ '' '' @ dq
     @ (if length (prompt t) > 60 then take 57 (prompt t) @ ''...'' else prompt t)
     @ dq @ '' _('' @ created_at t @ '')_''"

definition list_dispatches :: "DispatchesStore json_codec \<Rightarrow> list_args \<Rightarrow> world \<Rightarrow> tool_result" where
  "list_dispatches J args w =
     (let ts = list_selected J args w;
          total = length (tasks (readStore J w FILE DEFAULT))
      in if length ts = 0 then ok ''No dispatch tasks found''
         else ok (join_with nl
                    (map list_line ts
                     @ [nl @ ''_Showing '' @ String_of_nat (length ts) @ '' of ''
                        @ String_of_nat total @ '' total dispatches_''])))"


section \<open>The Ledger and sequences of reconciliations\<close>

definition ledger :: "DispatchesStore json_codec \<Rightarrow> world \<Rightarrow> DispatchesStore" where
  "ledger J w = readStore J w FILE DEFAULT"

text \<open>
  A reconciliation is a run of the Recovery Scanner or a call of \<open>get_dispatch_result\<close>.
  Between two of them the workers and the operating system may change every file but the
  Ledger and its temporary file, and the process table: \<open>Outside\<close>.
\<close>

datatype recon_call =
    Scan string
  | GetResult string string
  | Outside "string \<rightharpoonup> fnode" "int \<Rightarrow> kill_result"

definition outside_change :: "(string \<rightharpoonup> fnode) \<Rightarrow> (int \<Rightarrow> kill_result) \<Rightarrow> world \<Rightarrow> world" where
  "outside_change f k w =
     w\<lparr>files := (\<lambda>p. if p = storagePath w FILE \<or> p = storagePath w FILE @ ''.tmp''
                       then files w p else f p),
       kill0 := k\<rparr>"

fun recon_step :: "DispatchesStore json_codec \<Rightarrow> recon_call \<Rightarrow> world \<Rightarrow> world" where
  "recon_step J (Scan now) w = recoverOrphanedTasks J now w"
| "recon_step J (GetResult now taskId) w = fst (get_dispatch_result J now (Some taskId) w)"
| "recon_step J (Outside f k) w = outside_change f k w"

definition reconcile_all :: "DispatchesStore json_codec \<Rightarrow> recon_call list \<Rightarrow> world \<Rightarrow> world" where
  "reconcile_all J calls w = fold (recon_step J) calls w"


text \<open>The statuses of the Ledger's tasks, in a world and along a list of worlds.\<close>

definition ledger_statuses :: "DispatchesStore json_codec \<Rightarrow> world \<Rightarrow> DispatchStatus list" where
  "ledger_statuses J w = map status (tasks (ledger J w))"

definition trace_statuses :: "DispatchesStore json_codec \<Rightarrow> world list \<Rightarrow> DispatchStatus list list" where
  "trace_statuses J ws = map (ledger_statuses J) ws"

definition spawn_counts :: "world list \<Rightarrow> nat list" where
  "spawn_counts ws = map (\<lambda>w. length (spawned w)) ws"

text \<open>Two lists of tasks with the same identifiers in the same order, the second having
  every terminal task of the first as it was.\<close>

definition keeps_terminal :: "DispatchTask list \<Rightarrow> DispatchTask list \<Rightarrow> bool" where
  "keeps_terminal ts ts' =
     (map id' ts' = map id' ts
      \<and> (\<forall>i < length ts. is_terminal (status (ts ! i)) \<longrightarrow> ts' ! i = ts ! i))"


section \<open>A concrete codec\<close>

text \<open>
  A codec for the Ledger that loses nothing: numbers in unary, texts and lists with
  their length in front. It shows that \<open>lossless\<close> can be met, and the model runs on it.
\<close>

fun enc_nat :: "nat \<Rightarrow> string" where
  "enc_nat 0 = ''.''"
| "enc_nat (Suc n) = CHR ''I'' # enc_nat n"

fun dec_nat :: "string \<Rightarrow> (nat \<times> string) option" where
  "dec_nat [] = None"
| "dec_nat (c # r) =
     (if c = CHR ''.'' then Some (0, r)
      else if c = CHR ''I'' then (case dec_nat r of None \<Rightarrow> None | Some (n, r') \<Rightarrow> Some (Suc n, r'))
      else None)"

definition enc_str :: "string \<Rightarrow> string" where
  "enc_str s = enc_nat (length s) @ s"

definition dec_str :: "string \<Rightarrow> (string \<times> string) option" where
  "dec_str r =
     (case dec_nat r of
        None \<Rightarrow> None
      | Some (n, r') \<Rightarrow> if n \<le> length r' then Some (take n r', drop n r') else None)"

definition enc_int :: "int \<Rightarrow> string" where
  "enc_int i = (if i < 0 then CHR ''-'' # enc_nat (nat (- i)) else CHR ''+'' # enc_nat (nat i))"

fun dec_int :: "string \<Rightarrow> (int \<times> string) option" where
  "dec_int [] = None"
| "dec_int (c # r) =
     (if c = CHR ''-'' then (case dec_nat r of None \<Rightarrow> None | Some (n, r') \<Rightarrow> Some (- int n, r'))
      else if c = CHR ''+'' then (case dec_nat r of None \<Rightarrow> None | Some (n, r') \<Rightarrow> Some (int n, r'))
      else None)"

definition enc_bool :: "bool \<Rightarrow> string" where
  "enc_bool b = (if b then ''T'' else ''F'')"

fun dec_bool :: "string \<Rightarrow> (bool \<times> string) option" where
  "dec_bool [] = None"
| "dec_bool (c # r) =
     (if c = CHR ''T'' then Some (True, r) else if c = CHR ''F'' then Some (False, r) else None)"

fun enc_opt :: "('a \<Rightarrow> string) \<Rightarrow> 'a option \<Rightarrow> string" where
  "enc_opt e None = ''N''"
| "enc_opt e (Some x) = CHR ''S'' # e x"

fun dec_opt :: "(string \<Rightarrow> ('a \<times> string) option) \<Rightarrow> string \<Rightarrow> ('a option \<times> string) option" where
  "dec_opt d [] = None"
| "dec_opt d (c # r) =
     (if c = CHR ''N'' then Some (None, r)
      else if c = CHR ''S'' then (case d r of None \<Rightarrow> None | Some (x, r') \<Rightarrow> Some (Some x, r'))
      else None)"

definition enc_list :: "('a \<Rightarrow> string) \<Rightarrow> 'a list \<Rightarrow> string" where
  "enc_list e xs = enc_nat (length xs) @ concat (map e xs)"

fun dec_many :: "(string \<Rightarrow> ('a \<times> string) option) \<Rightarrow> nat \<Rightarrow> string \<Rightarrow> ('a list \<times> string) option" where
  "dec_many d 0 r = Some ([], r)"
| "dec_many d (Suc n) r =
     (case d r of
        None \<Rightarrow> None
      | Some (x, r') \<Rightarrow>
          (case dec_many d n r' of None \<Rightarrow> None | Some (xs, r'') \<Rightarrow> Some (x # xs, r'')))"

definition dec_list :: "(string \<Rightarrow> ('a \<times> string) option) \<Rightarrow> string \<Rightarrow> ('a list \<times> string) option" where
  "dec_list d r = (case dec_nat r of None \<Rightarrow> None | Some (n, r') \<Rightarrow> dec_many d n r')"

definition enc_options :: "DispatchOptions \<Rightarrow> string" where
  "enc_options v =
     enc_opt enc_bool (yolo v) @ enc_opt enc_int (timeout v)
     @ enc_opt enc_str (workdir v) @ enc_opt enc_bool (follow_up v)"

definition dec_options :: "string \<Rightarrow> (DispatchOptions \<times> string) option" where
  "dec_options r0 = do {
     (a, r1) \<leftarrow> dec_opt dec_bool r0;
     (b, r2) \<leftarrow> dec_opt dec_int r1;
     (c, r3) \<leftarrow> dec_opt dec_str r2;
     (d, r4) \<leftarrow> dec_opt dec_bool r3;
     Some (\<lparr>yolo = a, timeout = b, workdir = c, follow_up = d\<rparr>, r4) }"

definition enc_task :: "DispatchTask \<Rightarrow> string" where
  "enc_task t =
     enc_str (id' t) @ enc_str (model t) @ enc_str (prompt t) @ enc_opt enc_options (options t)
     @ enc_str (session_dir t) @ enc_str (output_file t) @ enc_str (status t)
     @ enc_opt enc_int (pid t) @ enc_opt enc_int (exit_code t) @ enc_opt enc_int (duration_s t)
     @ enc_opt enc_str (output t) @ enc_str (created_at t) @ enc_opt enc_str (completed_at t)
     @ enc_opt enc_str (error t)"

definition dec_task :: "string \<Rightarrow> (DispatchTask \<times> string) option" where
  "dec_task r0 = do {
     (a, r1) \<leftarrow> dec_str r0;
     (b, r2) \<leftarrow> dec_str r1;
     (c, r3) \<leftarrow> dec_str r2;
     (d, r4) \<leftarrow> dec_opt dec_options r3;
     (e, r5) \<leftarrow> dec_str r4;
     (f, r6) \<leftarrow> dec_str r5;
     (g, r7) \<leftarrow> dec_str r6;
     (h, r8) \<leftarrow> dec_opt dec_int r7;
     (i, r9) \<leftarrow> dec_opt dec_int r8;
     (j, r10) \<leftarrow> dec_opt dec_int r9;
     (k, r11) \<leftarrow> dec_opt dec_str r10;
     (l, r12) \<leftarrow> dec_str r11;
     (m, r13) \<leftarrow> dec_opt dec_str r12;
     (n, r14) \<leftarrow> dec_opt dec_str r13;
     Some (\<lparr>id' = a, model = b, prompt = c, options = d, session_dir = e, output_file = f,
            status = g, pid = h, exit_code = i, duration_s = j, output = k, created_at = l,
            completed_at = m, error = n\<rparr>, r14) }"

definition enc_store :: "DispatchesStore \<Rightarrow> string" where
  "enc_store s = enc_int (schema_version s) @ enc_list enc_task (tasks s)"

definition dec_store :: "string \<Rightarrow> DispatchesStore option" where
  "dec_store r0 =
     (case dec_int r0 of
        None \<Rightarrow> None
      | Some (v, r1) \<Rightarrow>
          (case dec_list dec_task r1 of
             None \<Rightarrow> None
           | Some (ts, r2) \<Rightarrow> if r2 = [] then Some \<lparr>schema_version = v, tasks = ts\<rparr> else None))"

definition unary_codec :: "DispatchesStore json_codec" where
  "unary_codec = \<lparr>JSON_stringify = enc_store, JSON_parse = dec_store\<rparr>"


section \<open>Example worlds\<close>

text \<open>
  A home directory \<open>/home/u\<close>, the storage directory with a Ledger written with the concrete
  codec, further files and a process table; and a task as \<open>dispatch\<close> makes it, with a
  given status and process.
\<close>

definition example_world ::
  "DispatchTask list \<Rightarrow> (string \<times> fnode) list \<Rightarrow> (int \<Rightarrow> kill_result) \<Rightarrow> world" where
  "example_world ts extra k =
     \<lparr>files = map_of ((''/home/u/.claude/orchestrator/dispatches.json'',
                        Text (enc_store \<lparr>schema_version = 1, tasks = ts\<rparr>))
                      # (''/home/u/.claude/orchestrator'', Unreadable) # extra),
      kill0 = k, homedir = ''/home/u'', bridge_models = None, spawned = []\<rparr>"

definition example_session :: "string \<Rightarrow> string" where
  "example_session hex = ''/home/u/.claude/orchestration/sessions/dsp_'' @ hex"

definition example_task :: "string \<Rightarrow> DispatchStatus \<Rightarrow> int option \<Rightarrow> DispatchTask" where
  "example_task hex st p =
     (new_task (genId ''dsp'' hex) ''codex'' ''say hi'' no_options (example_session hex)
        (example_session hex @ ''/codex-turn-0001.md'') ''2026-02-09T10:00:00.000Z'')
     \<lparr>status := st, pid := p\<rparr>"

definition example_now :: string where
  "example_now = ''2026-02-09T12:00:00.000Z''"


definition empty_world :: world where
  "empty_world =
     \<lparr>files = Map.empty, kill0 = (\<lambda>p. ESRCH), homedir = ''/home/u'', bridge_models = None,
      spawned = []\<rparr>"

definition corrupt_world :: world where
  "corrupt_world =
     empty_world\<lparr>files := [''/home/u/.claude/orchestrator'' \<mapsto> Unreadable,
        ''/home/u/.claude/orchestrator/dispatches.json''
        \<mapsto> Text (''{ '' @ dq @ ''schema_version'' @ dq @ '': 1, '' @ dq @ ''tasks'' @ dq @ '': ['')]\<rparr>"

definition eperm_world :: world where
  "eperm_world = example_world [example_task ''0000000b'' ''running'' (Some 4242)] [] (\<lambda>p. EPERM)"

definition three_tasks :: "DispatchTask list" where
  "three_tasks =
     [example_task ''00000001'' ''completed'' (Some 101),
      example_task ''00000002'' ''failed'' (Some 102),
      example_task ''00000003'' ''running'' (Some 103)]"

definition three_task_world :: world where
  "three_task_world = example_world three_tasks [] (\<lambda>p. ESRCH)"

definition example_calls :: "recon_call list" where
  "example_calls =
     [Scan example_now, GetResult example_now ''dsp_00000003'',
      Outside Map.empty (\<lambda>p. Delivered), GetResult example_now ''dsp_00000001'',
      Scan example_now]"

definition example_wrapper :: "string \<times> fnode" where
  "example_wrapper =
     (''/home/u/.claude/orchestration/templates/dispatch-wrapper.sh'', Text ''#!/bin/bash'')"

definition wrapper_world :: world where
  "wrapper_world = example_world [] [example_wrapper] (\<lambda>p. ESRCH)"

definition long_prompt :: string where
  "long_prompt = replicate 501 (CHR ''a'')"

definition say_long :: dispatch_args where
  "say_long = \<lparr>arg_model = Some ''codex'', arg_prompt = Some long_prompt, arg_options = None\<rparr>"

definition say_hi :: dispatch_args where
  "say_hi = \<lparr>arg_model = Some ''codex'', arg_prompt = Some ''say hi'', arg_options = None\<rparr>"

text \<open>A dispatch with a prompt of 501 characters whose \<^verbatim>\<open>spawn\<close> raises, and the retry of
  the task it records.\<close>

definition retry_world1 :: world where
  "retry_world1 =
     fst (dispatch unary_codec ''0000000e'' example_now (SpawnError ''spawn ENOMEM'') say_long
            wrapper_world)"

definition retry_world2 :: world where
  "retry_world2 =
     fst (retry_dispatch unary_codec ''0000000f'' example_now (Child (Some 4243))
            (Some ''dsp_0000000e'') retry_world1)"

text \<open>A running task whose process is gone and whose marker file says \<open>cancelled\<close>.\<close>

definition cancelled_world :: world where
  "cancelled_world =
     example_world [example_task ''00000010'' ''running'' (Some 4242)]
       [(''/home/u/.claude/orchestration/sessions/dsp_00000010/.task-dsp_00000010.state'',
         Text ''cancelled'')]
       (\<lambda>p. ESRCH)"

text \<open>A running task whose marker file says \<open>completed\<close> and whose output artifact holds
  \<open>hello\<close>.\<close>

definition hello_world :: world where
  "hello_world =
     example_world [example_task ''00000011'' ''running'' (Some 4242)]
       [(''/home/u/.claude/orchestration/sessions/dsp_00000011/.task-dsp_00000011.state'',
         Text (''completed'' @ nl)),
        (''/home/u/.claude/orchestration/sessions/dsp_00000011/codex-turn-0001.md'',
         Text ''hello'')]
       (\<lambda>p. Delivered)"


section \<open>Properties of the Durable Store\<close>

lemma storagePath_tmp_neq: "storagePath w f @ ''.tmp'' \<noteq> storagePath w f"
  by simp

lemma files_atomicWrite:
  "files (atomicWrite J f d w) =
     ((files w)(storagePath w f \<mapsto> Text (JSON_stringify J d)))(storagePath w f @ ''.tmp'' := None)"
  by (simp add: atomicWrite_def Let_def renameSync_def writeFileSync_def storagePath_def STORAGE_DIR_def)

lemma homedir_atomicWrite: "homedir (atomicWrite J f d w) = homedir w"
  by (simp add: atomicWrite_def Let_def renameSync_def writeFileSync_def)

lemma storagePath_atomicWrite: "storagePath (atomicWrite J f d w) g = storagePath w g"
  by (simp add: storagePath_def STORAGE_DIR_def homedir_atomicWrite)

lemma readStore_atomicWrite:
  assumes "roundtrips J d"
  shows "readStore J (atomicWrite J f d w) f dflt = d\<lparr>schema_version := schema_version dflt\<rparr>"
  using assms
  by (simp add: readStore_def readStore_try_def Let_def existsSync_def storagePath_atomicWrite
      files_atomicWrite roundtrips_def)


section \<open>The concrete codec loses nothing; the Ledger after a write\<close>

lemma dec_nat_enc: "dec_nat (enc_nat n @ r) = Some (n, r)"
  by (induction n) auto

lemma dec_str_enc: "dec_str (enc_str s @ r) = Some (s, r)"
  by (simp add: dec_str_def enc_str_def dec_nat_enc)

lemma dec_int_enc: "dec_int (enc_int i @ r) = Some (i, r)"
  by (simp add: enc_int_def dec_nat_enc)

lemma dec_bool_enc: "dec_bool (enc_bool b @ r) = Some (b, r)"
  by (simp add: enc_bool_def)

lemma dec_opt_enc:
  assumes "\<And>x r. d (e x @ r) = Some (x, r)"
  shows "dec_opt d (enc_opt e v @ r) = Some (v, r)"
  using assms by (cases v) auto

lemma dec_many_enc:
  assumes "\<And>x r. d (e x @ r) = Some (x, r)"
  shows "dec_many d (length xs) (concat (map e xs) @ r) = Some (xs, r)"
  using assms by (induction xs) auto

lemma dec_list_enc:
  assumes "\<And>x r. d (e x @ r) = Some (x, r)"
  shows "dec_list d (enc_list e xs @ r) = Some (xs, r)"
  using assms by (simp add: dec_list_def enc_list_def dec_nat_enc dec_many_enc)

lemma dec_options_enc: "dec_options (enc_options v @ r) = Some (v, r)"
  by (simp add: dec_options_def enc_options_def dec_opt_enc dec_bool_enc dec_int_enc dec_str_enc)

lemma dec_task_enc: "dec_task (enc_task t @ r) = Some (t, r)"
  by (simp add: dec_task_def enc_task_def dec_opt_enc dec_options_enc dec_int_enc dec_str_enc)

lemma dec_store_enc: "dec_store (enc_store s) = Some s"
  using dec_list_enc [of dec_task enc_task "tasks s" "[]", OF dec_task_enc]
  by (simp add: dec_store_def enc_store_def dec_int_enc)

lemma unary_codec_lossless: "lossless unary_codec"
  by (simp add: lossless_def roundtrips_def unary_codec_def dec_store_enc)

lemma readStore_version: "schema_version (readStore J w f d) = schema_version d"
  by (simp add: readStore_def readStore_try_def Let_def split: option.splits fnode.splits)

lemma ledger_version: "schema_version (ledger J w) = 1"
  by (simp add: ledger_def readStore_version DEFAULT_def)

lemma updateStore_frame:
  "kill0 (fst (updateStore J f d u w)) = kill0 w"
  "homedir (fst (updateStore J f d u w)) = homedir w"
  "spawned (fst (updateStore J f d u w)) = spawned w"
  "bridge_models (fst (updateStore J f d u w)) = bridge_models w"
  by (simp_all add: updateStore_def Let_def atomicWrite_def renameSync_def writeFileSync_def)

lemma files_updateStore:
  "p \<noteq> storagePath w f \<Longrightarrow> p \<noteq> storagePath w f @ ''.tmp'' \<Longrightarrow>
   files (fst (updateStore J f d u w)) p = files w p"
  by (simp add: updateStore_def Let_def files_atomicWrite)

lemma ledger_updateStore:
  assumes "lossless J"
  shows "ledger J (fst (updateStore J FILE DEFAULT u w))
           = (u (ledger J w))\<lparr>schema_version := 1\<rparr>"
  using assms
  by (simp add: ledger_def updateStore_def Let_def readStore_atomicWrite lossless_def DEFAULT_def)

lemma tasks_ledger_updateStore:
  assumes "lossless J"
  shows "tasks (ledger J (fst (updateStore J FILE DEFAULT u w))) = tasks (u (ledger J w))"
  by (simp add: ledger_updateStore [OF assms])

lemma recover_task_idle:
  "status t \<noteq> ''running'' \<Longrightarrow> status t \<noteq> ''created'' \<Longrightarrow> recover_task w now t = t"
  by (simp add: recover_task_def)

lemma tasks_recoverOrphanedTasks:
  assumes "lossless J"
  shows "tasks (ledger J (recoverOrphanedTasks J now w))
           = map (recover_task w now) (tasks (ledger J w))"
proof (cases "filter (\<lambda>t. status t = ''running'' \<or> status t = ''created'') (tasks (ledger J w)) = []")
  case True
  then have "\<forall>t \<in> set (tasks (ledger J w)). status t \<noteq> ''running'' \<and> status t \<noteq> ''created''"
    by (auto simp: filter_empty_conv)
  then have "map (recover_task w now) (tasks (ledger J w)) = tasks (ledger J w)"
    by (simp add: map_idI recover_task_idle)
  moreover from True have "recoverOrphanedTasks J now w = w"
    by (simp add: recoverOrphanedTasks_def ledger_def Let_def)
  ultimately show ?thesis by simp
next
  case False
  then have "recoverOrphanedTasks J now w
      = fst (updateStore J FILE DEFAULT (\<lambda>s. s\<lparr>tasks := map (recover_task w now) (tasks s)\<rparr>) w)"
    by (simp add: recoverOrphanedTasks_def ledger_def Let_def)
  then show ?thesis
    by (simp add: tasks_ledger_updateStore [OF assms])
qed

lemma ledger_example_world:
  "ledger unary_codec (example_world ts extra k) = \<lparr>schema_version = 1, tasks = ts\<rparr>"
  by (simp add: ledger_def readStore_def readStore_try_def Let_def existsSync_def
      storagePath_def STORAGE_DIR_def join_path_def FILE_def DEFAULT_def example_world_def
      unary_codec_def dec_store_enc)


lemma example_task_fields:
  "id' (example_task hex st p) = ''dsp_'' @ hex"
  "status (example_task hex st p) = st"
  "pid (example_task hex st p) = p"
  "session_dir (example_task hex st p) = example_session hex"
  "output_file (example_task hex st p) = example_session hex @ ''/codex-turn-0001.md''"
  "error (example_task hex st p) = None"
  by (simp_all add: example_task_def new_task_def genId_def)


section \<open>The Recovery Scanner\<close>








section \<open>Reading and writing the Durable Store\<close>

lemma storagePath_not_dir: "storagePath w f \<noteq> STORAGE_DIR w"
  by (simp add: storagePath_def join_path_def)

lemma readStore_after_mkdir:
  "readStore J (w\<lparr>files := (files w)(STORAGE_DIR w \<mapsto> Unreadable)\<rparr>) f d = readStore J w f d"
  using storagePath_not_dir [of w f]
  by (simp add: readStore_def readStore_try_def Let_def existsSync_def storagePath_def
      STORAGE_DIR_def)

lemma readStore_call_value:
  assumes "readStore_call J mk w f d = Some (w', v)"
  shows "v = readStore J w f d"
  using assms
  by (auto simp: readStore_call_def ensureStorageDir_def readStore_after_mkdir
      split: if_splits mkdir_outcome.splits)

lemma readStore_cases:
  "(files w (storagePath w f) = None \<longrightarrow> readStore J w f d = d)
   \<and> (files w (storagePath w f) = Some Unreadable \<longrightarrow> readStore J w f d = d)
   \<and> (\<forall>raw. files w (storagePath w f) = Some (Text raw) \<and> JSON_parse J raw = None
          \<longrightarrow> readStore J w f d = d)
   \<and> (\<forall>raw parsed. files w (storagePath w f) = Some (Text raw) \<and> JSON_parse J raw = Some parsed
          \<longrightarrow> readStore J w f d = parsed\<lparr>schema_version := schema_version d\<rparr>)"
  by (simp add: readStore_def readStore_try_def Let_def existsSync_def)

text \<open>
  Claim C7, as the code has it. A call of \<open>readStore\<close> raises exactly when the storage
  directory is missing and \<^verbatim>\<open>mkdirSync\<close> refuses to create it: \<open>ensureStorageDir()\<close> runs
  before the \<^verbatim>\<open>try\<close> block. In every other case the call returns: the default document
  when the file is missing, when it cannot be read and when its content does not parse,
  and the parsed document with the expected version otherwise.
\<close>

theorem readStore_raises_only_in_ensureStorageDir:
  "(readStore_call J mk w f d = None) = (\<not> existsSync w (STORAGE_DIR w) \<and> mk = Refused)
   \<and> (\<forall>w' v. readStore_call J mk w f d = Some (w', v) \<longrightarrow>
         (files w (storagePath w f) = None \<longrightarrow> v = d)
       \<and> (files w (storagePath w f) = Some Unreadable \<longrightarrow> v = d)
       \<and> (\<forall>raw. files w (storagePath w f) = Some (Text raw) \<and> JSON_parse J raw = None
              \<longrightarrow> v = d)
       \<and> (\<forall>raw parsed. files w (storagePath w f) = Some (Text raw)
                \<and> JSON_parse J raw = Some parsed
              \<longrightarrow> v = parsed\<lparr>schema_version := schema_version d\<rparr>))"
proof (intro conjI allI impI)
  show "(readStore_call J mk w f d = None) = (\<not> existsSync w (STORAGE_DIR w) \<and> mk = Refused)"
    by (simp add: readStore_call_def ensureStorageDir_def split: mkdir_outcome.splits)
next
  fix w' v assume "readStore_call J mk w f d = Some (w', v)"
  then have v: "v = readStore J w f d" by (rule readStore_call_value)
  note c = readStore_cases [of w f J d]
  { assume "files w (storagePath w f) = None"
    then show "v = d" using c v by simp }
  { assume "files w (storagePath w f) = Some Unreadable"
    then show "v = d" using c v by simp }
  { fix raw assume "files w (storagePath w f) = Some (Text raw) \<and> JSON_parse J raw = None"
    then show "v = d" using c v by simp }
  { fix raw parsed
    assume "files w (storagePath w f) = Some (Text raw) \<and> JSON_parse J raw = Some parsed"
    then show "v = parsed\<lparr>schema_version := schema_version d\<rparr>" using c v by simp }
qed

lemma empty_world_storage:
  "\<not> existsSync empty_world (STORAGE_DIR empty_world)"
  "files empty_world (storagePath empty_world FILE) = None"
  by (simp_all add: empty_world_def existsSync_def)

lemma corrupt_world_storage:
  "files corrupt_world (storagePath corrupt_world FILE)
     = Some (Text (''{ '' @ dq @ ''schema_version'' @ dq @ '': 1, '' @ dq @ ''tasks'' @ dq @ '': [''))"
  "JSON_parse unary_codec
     (''{ '' @ dq @ ''schema_version'' @ dq @ '': 1, '' @ dq @ ''tasks'' @ dq @ '': ['') = None"
  "existsSync corrupt_world (STORAGE_DIR corrupt_world)"
  by (simp_all add: corrupt_world_def empty_world_def storagePath_def STORAGE_DIR_def join_path_def
      FILE_def unary_codec_def dec_store_def existsSync_def)

theorem readStore_raises_only_in_ensureStorageDir_witness:
  "\<not> existsSync empty_world (STORAGE_DIR empty_world)
   \<and> files empty_world (storagePath empty_world FILE) = None
   \<and> map_option snd (readStore_call unary_codec Created empty_world FILE DEFAULT) = Some DEFAULT
   \<and> existsSync corrupt_world (STORAGE_DIR corrupt_world)
   \<and> (\<exists>raw. files corrupt_world (storagePath corrupt_world FILE) = Some (Text raw)
          \<and> JSON_parse unary_codec raw = None)
   \<and> readStore_call unary_codec Refused corrupt_world FILE DEFAULT = Some (corrupt_world, DEFAULT)"
proof -
  note a = readStore_raises_only_in_ensureStorageDir [of unary_codec Created empty_world FILE DEFAULT]
  note b = readStore_raises_only_in_ensureStorageDir [of unary_codec Refused corrupt_world FILE DEFAULT]
  from a obtain w1 v1 where
    r1: "readStore_call unary_codec Created empty_world FILE DEFAULT = Some (w1, v1)"
    by (cases "readStore_call unary_codec Created empty_world FILE DEFAULT") auto
  from b corrupt_world_storage(3) obtain w2 v2 where
    r2: "readStore_call unary_codec Refused corrupt_world FILE DEFAULT = Some (w2, v2)"
    by (cases "readStore_call unary_codec Refused corrupt_world FILE DEFAULT") auto
  have "v1 = DEFAULT"
    using a r1 empty_world_storage(2) by simp
  moreover have "v2 = DEFAULT"
    using b r2 corrupt_world_storage(1,2) by simp
  moreover have "w2 = corrupt_world"
    using r2 corrupt_world_storage(3) by (simp add: readStore_call_def ensureStorageDir_def)
  ultimately show ?thesis
    using r1 r2 empty_world_storage corrupt_world_storage by simp
qed

text \<open>
  The claim as stated fails: with the storage directory missing and not to be created,
  the file is missing and the call raises instead of returning the default document.
\<close>

theorem readStore_raises_without_storage_dir:
  "\<not> existsSync empty_world (STORAGE_DIR empty_world)
   \<and> files empty_world (storagePath empty_world FILE) = None
   \<and> ensureStorageDir Refused empty_world = None
   \<and> readStore_call unary_codec Refused empty_world FILE DEFAULT = None"
  using empty_world_storage
  by (simp add: readStore_call_def ensureStorageDir_def)

text \<open>
  Claim C8. For a document that the platform's codec gives back as it was (a
  JSON-serializable document), \<open>atomicWrite\<close> followed by \<open>readStore\<close> of the same store
  yields the document with its \<open>schema_version\<close> set to the expected version: every
  other field is as written, and a document of the expected version comes back unchanged.
\<close>

theorem atomicWrite_readStore_roundtrip:
  assumes "roundtrips J doc"
  shows "readStore J (atomicWrite J f doc w) f dflt = doc\<lparr>schema_version := schema_version dflt\<rparr>
         \<and> Versioned.more (readStore J (atomicWrite J f doc w) f dflt) = Versioned.more doc
         \<and> (schema_version doc = schema_version dflt
              \<longrightarrow> readStore J (atomicWrite J f doc w) f dflt = doc)"
proof -
  have "readStore J (atomicWrite J f doc w) f dflt = doc\<lparr>schema_version := schema_version dflt\<rparr>"
    using assms
    by (simp add: readStore_def readStore_try_def Let_def existsSync_def storagePath_atomicWrite
        files_atomicWrite roundtrips_def)
  then show ?thesis by auto
qed

theorem atomicWrite_readStore_roundtrip_witness:
  "roundtrips unary_codec \<lparr>schema_version = 7, tasks = three_tasks\<rparr>
   \<and> readStore unary_codec
        (atomicWrite unary_codec FILE \<lparr>schema_version = 7, tasks = three_tasks\<rparr> empty_world)
        FILE DEFAULT
       = \<lparr>schema_version = 1, tasks = three_tasks\<rparr>"
proof -
  have r: "roundtrips unary_codec \<lparr>schema_version = 7, tasks = three_tasks\<rparr>"
    using unary_codec_lossless by (simp add: lossless_def)
  show ?thesis
    using atomicWrite_readStore_roundtrip [OF r, of FILE empty_world DEFAULT] r
    by (simp add: DEFAULT_def)
qed

section \<open>The liveness probe\<close>

text \<open>
  Claim C5, as the code has it. The probe reports a process alive exactly when the
  zero-signal \<^verbatim>\<open>kill\<close> returns; the "no such process" error and the permission error both
  count as not alive. A running task whose marker says neither \<open>completed\<close> nor
  \<open>failed\<close> and whose process answers the probe with the permission error is therefore
  failed by the Recovery Scanner.
\<close>

theorem isProcessAlive_iff_delivered:
  "isProcessAlive w p = (kill0 w p = Delivered)
   \<and> (status t = ''running'' \<and> pid t = Some p \<and> kill0 w p = EPERM
        \<and> readMarker w (session_dir t) (id' t) \<noteq> Some ''completed''
        \<and> readMarker w (session_dir t) (id' t) \<noteq> Some ''failed''
      \<longrightarrow> status (recover_task w now t) = ''failed'')"
  by (auto simp: isProcessAlive_def recover_task_def Let_def split: kill_result.splits)

theorem isProcessAlive_iff_delivered_witness:
  "status (example_task ''0000000b'' ''running'' (Some 4242)) = ''running''
   \<and> kill0 eperm_world 4242 = EPERM
   \<and> status (recover_task eperm_world example_now (example_task ''0000000b'' ''running'' (Some 4242)))
       = ''failed''"
proof -
  let ?t = "example_task ''0000000b'' ''running'' (Some 4242)"
  have a: "status ?t = ''running''" and b: "pid ?t = Some 4242"
    by (simp_all add: example_task_def)
  have c: "kill0 eperm_world 4242 = EPERM"
    by (simp add: eperm_world_def example_world_def)
  have d: "readMarker eperm_world (session_dir ?t) (id' ?t) = None"
    by (simp add: readMarker_def eperm_world_def example_world_def markerPath_def join_path_def
        example_task_def new_task_def example_session_def genId_def)
  show ?thesis
    using isProcessAlive_iff_delivered [of eperm_world 4242 ?t example_now] a b c d by simp
qed

text \<open>
  The claim as stated fails: a process that answers the probe with the permission error
  is reported not alive, and the running task that records it does not stay \<open>running\<close>.
\<close>

theorem permission_error_is_not_alive:
  "kill0 eperm_world 4242 = EPERM
   \<and> \<not> isProcessAlive eperm_world 4242
   \<and> map status (tasks (ledger unary_codec eperm_world)) = [''running'']
   \<and> map pid (tasks (ledger unary_codec eperm_world)) = [Some 4242]
   \<and> map status (tasks (ledger unary_codec
         (recoverOrphanedTasks unary_codec example_now eperm_world))) = [''failed'']"
proof -
  let ?t = "example_task ''0000000b'' ''running'' (Some 4242)"
  have k: "kill0 eperm_world 4242 = EPERM"
    by (simp add: eperm_world_def example_world_def)
  have l: "tasks (ledger unary_codec eperm_world) = [?t]"
    by (simp add: eperm_world_def ledger_example_world)
  have t: "status ?t = ''running''" "pid ?t = Some 4242"
    by (simp_all add: example_task_def)
  have m: "readMarker eperm_world (session_dir ?t) (id' ?t) = None"
    by (simp add: readMarker_def eperm_world_def example_world_def markerPath_def join_path_def
        example_task_def new_task_def example_session_def genId_def)
  have r: "status (recover_task eperm_world example_now ?t) = ''failed''"
    using k t m by (simp add: recover_task_def Let_def isProcessAlive_def truthy_num_def)
  show ?thesis
    using k l t r
    by (simp add: tasks_recoverOrphanedTasks [OF unary_codec_lossless] isProcessAlive_def)
qed

section \<open>Listing\<close>

lemma list_matching_limit:
  "list_matching J (args\<lparr>list_limit := l\<rparr>) w = list_matching J args w"
  by (simp add: list_matching_def Let_def)

lemma list_line_head: "\<exists>rest. list_line t = CHR ''-'' # rest"
  by (simp add: list_line_def)

lemma join_with_head:
  assumes "x = c # rest"
  shows "\<exists>rest'. join_with sep (x # xs) = c # rest'"
  using assms by (cases xs) simp_all

text \<open>
  Claim C10. When the limit of \<open>list_dispatches\<close> is 0 or absent, the cap of 20 applies.
  The call selects the first 20 of the matching tasks, newest first. Its answer is
  \<open>No dispatch tasks found\<close> only when no task matches; otherwise it is one line for each
  selected task and a last line with their number, which is the number of matching tasks
  or 20, whichever is smaller.
\<close>

theorem list_dispatches_limit_zero:
  assumes "list_limit args = Some 0 \<or> list_limit args = None"
  shows "effective_limit (list_limit args) = 20
       \<and> list_selected J args w = take 20 (list_matching J args w)
       \<and> list_dispatches J args w =
           (if list_matching J args w = [] then ok ''No dispatch tasks found''
            else ok (join_with nl
                   (map list_line (take 20 (list_matching J args w))
                    @ [nl @ ''_Showing ''
                       @ String_of_nat (min (length (list_matching J args w)) 20) @ '' of ''
                       @ String_of_nat (length (tasks (ledger J w))) @ '' total dispatches_''])))
       \<and> (list_matching J args w \<noteq> []
            \<longrightarrow> list_dispatches J args w \<noteq> ok ''No dispatch tasks found'')"
proof -
  let ?m = "list_matching J args w"
  have e: "effective_limit (list_limit args) = 20"
    using assms by (auto simp: effective_limit_def truthy_num_def)
  have s: "list_selected J args w = take 20 ?m"
    by (simp add: list_selected_def e slice0_def)
  have d: "list_dispatches J args w =
           (if ?m = [] then ok ''No dispatch tasks found''
            else ok (join_with nl
                   (map list_line (take 20 ?m)
                    @ [nl @ ''_Showing '' @ String_of_nat (min (length ?m) 20) @ '' of ''
                       @ String_of_nat (length (tasks (ledger J w))) @ '' total dispatches_''])))"
    by (simp add: list_dispatches_def Let_def s ledger_def)
  have n: "list_dispatches J args w \<noteq> ok ''No dispatch tasks found''" if ne: "?m \<noteq> []"
  proof -
    from ne obtain t ts where m: "?m = t # ts" by (cases ?m) auto
    let ?foot = "nl @ ''_Showing '' @ String_of_nat (min (length ?m) 20) @ '' of ''
                       @ String_of_nat (length (tasks (ledger J w))) @ '' total dispatches_''"
    obtain rest where h: "list_line t = CHR ''-'' # rest"
      using list_line_head by blast
    have "map list_line (take 20 ?m) @ [?foot] = list_line t # (map list_line (take 19 ts) @ [?foot])"
      by (simp add: m)
    then obtain rest' where "join_with nl (map list_line (take 20 ?m) @ [?foot]) = CHR ''-'' # rest'"
      using join_with_head [OF h, of nl "map list_line (take 19 ts) @ [?foot]"] by auto
    then show ?thesis
      using ne by (simp add: d ok_def)
  qed
  show ?thesis
    using e s d n by blast
qed

theorem list_dispatches_limit_zero_witness:
  "list_limit \<lparr>list_model = None, list_status = None, list_limit = Some 0\<rparr> = Some 0
   \<and> map id' (list_selected unary_codec \<lparr>list_model = None, list_status = None, list_limit = Some 0\<rparr>
        three_task_world)
       = [''dsp_00000003'', ''dsp_00000002'', ''dsp_00000001'']
   \<and> list_dispatches unary_codec \<lparr>list_model = None, list_status = None, list_limit = Some 0\<rparr>
        three_task_world
       = ok (join_with nl
          [''- **dsp_00000003** [codex] running '' @ em_dash @ '' '' @ dq @ ''say hi'' @ dq
             @ '' _(2026-02-09T10:00:00.000Z)_'',
           ''- **dsp_00000002** [codex] failed '' @ em_dash @ '' '' @ dq @ ''say hi'' @ dq
             @ '' _(2026-02-09T10:00:00.000Z)_'',
           ''- **dsp_00000001** [codex] completed '' @ em_dash @ '' '' @ dq @ ''say hi'' @ dq
             @ '' _(2026-02-09T10:00:00.000Z)_'',
           nl @ ''_Showing 3 of 3 total dispatches_''])"
proof -
  let ?a = "\<lparr>list_model = None, list_status = None, list_limit = Some 0\<rparr>"
  have l: "tasks (ledger unary_codec three_task_world) = three_tasks"
    by (simp add: three_task_world_def ledger_example_world)
  have m: "list_matching unary_codec ?a three_task_world = rev three_tasks"
    using l by (simp add: list_matching_def ledger_def truthy_str_def)
  note th = list_dispatches_limit_zero [of ?a unary_codec three_task_world]
  have sel: "list_selected unary_codec ?a three_task_world = take 20 (rev three_tasks)"
    using th by (simp only: m) simp
  have ans: "list_dispatches unary_codec ?a three_task_world =
           (if rev three_tasks = [] then ok ''No dispatch tasks found''
            else ok (join_with nl
                   (map list_line (take 20 (rev three_tasks))
                    @ [nl @ ''_Showing ''
                       @ String_of_nat (min (length (rev three_tasks)) 20) @ '' of ''
                       @ String_of_nat (length three_tasks) @ '' total dispatches_''])))"
    using th by (simp only: m l) simp
  have "String_of_nat 3 = ''3''"
    by (simp add: String_of_nat.simps digit_char_def)
  then have n3: "String_of_nat (Suc (Suc (Suc 0))) = ''3''"
    by (simp add: numeral_3_eq_3)
  show ?thesis
    unfolding sel ans
    by (simp add: three_tasks_def example_task_def new_task_def genId_def list_line_def n3
        em_dash_def dq_def nl_def)
qed


section \<open>Terminal tasks under reconciliation\<close>

lemma ledger_cong:
  assumes "homedir w' = homedir w"
    and "files w' (storagePath w FILE) = files w (storagePath w FILE)"
  shows "ledger J w' = ledger J w"
  using assms
  by (simp add: ledger_def readStore_def readStore_try_def Let_def existsSync_def storagePath_def
      STORAGE_DIR_def)

lemma ledger_outside_change: "ledger J (outside_change f k w) = ledger J w"
  by (rule ledger_cong) (simp_all add: outside_change_def)

lemma keeps_terminal_refl: "keeps_terminal ts ts"
  by (simp add: keeps_terminal_def)

lemma keeps_terminal_trans:
  assumes "keeps_terminal ts ts'" and "keeps_terminal ts' ts''"
  shows "keeps_terminal ts ts''"
proof -
  have len: "length ts' = length ts"
    using assms(1) by (metis keeps_terminal_def length_map)
  show ?thesis
    using assms len by (auto simp: keeps_terminal_def)
qed

lemma keeps_terminal_map:
  assumes "\<forall>t \<in> set ts. id' (g t) = id' t \<and> (is_terminal (status t) \<longrightarrow> g t = t)"
  shows "keeps_terminal ts (map g ts)"
  using assms by (auto simp: keeps_terminal_def)

lemma recover_task_id: "id' (recover_task w now t) = id' t"
  by (simp add: recover_task_def Let_def)

lemma recover_task_terminal: "is_terminal (status t) \<Longrightarrow> recover_task w now t = t"
  by (rule recover_task_idle) (auto simp: is_terminal_def)

lemma keeps_terminal_scan:
  assumes "lossless J"
  shows "keeps_terminal (tasks (ledger J w)) (tasks (ledger J (recoverOrphanedTasks J now w)))"
  unfolding tasks_recoverOrphanedTasks [OF assms]
  by (rule keeps_terminal_map) (simp add: recover_task_id recover_task_terminal)

lemma find_task_Some:
  assumes "find_task tid s = Some task"
  shows "task \<in> set (tasks s) \<and> id' task = tid"
  using assms unfolding find_task_def find_Some_iff by auto

lemma same_id_same_task:
  assumes "distinct (map id' ts)" and "t \<in> set ts" and "u \<in> set ts" and "id' t = id' u"
  shows "t = u"
  using assms by (meson distinct_map inj_onD)

text \<open>The two rewritings of \<open>reconcile\<close> touch the tasks with the given identifier only, and
  leave the identifier.\<close>

lemma keeps_terminal_by_id:
  assumes "distinct (map id' ts)" and "task \<in> set ts" and "id' task = tid"
    and "\<not> is_terminal (status task)" and "\<forall>t. id' (g t) = id' t"
  shows "keeps_terminal ts (map (\<lambda>t. if id' t = tid then g t else t) ts)"
proof (rule keeps_terminal_map, intro ballI conjI impI)
  fix t assume "t \<in> set ts"
  show "id' (if id' t = tid then g t else t) = id' t"
    using assms(5) by simp
next
  fix t assume t: "t \<in> set ts" and tt: "is_terminal (status t)"
  have "id' t \<noteq> tid"
  proof
    assume "id' t = tid"
    then have "t = task"
      using same_id_same_task [OF assms(1) t assms(2)] assms(3) by simp
    with tt assms(4) show False by simp
  qed
  then show "(if id' t = tid then g t else t) = t" by simp
qed

lemma keeps_terminal_reconcile:
  assumes J: "lossless J"
    and d: "distinct (map id' (tasks (ledger J w)))"
    and f: "find_task tid (ledger J w) = Some task"
  shows "keeps_terminal (tasks (ledger J w)) (tasks (ledger J (fst (reconcile J now tid task w))))"
proof (cases "status task = ''running''")
  case False
  then show ?thesis by (simp add: reconcile_def keeps_terminal_refl)
next
  case True
  then have nt: "\<not> is_terminal (status task)"
    by (simp add: is_terminal_def)
  note mem = find_task_Some [OF f]
  have k: "\<And>g. \<forall>t. id' (g t) = id' t \<Longrightarrow>
     keeps_terminal (tasks (ledger J w)) (map (\<lambda>t. if id' t = tid then g t else t) (tasks (ledger J w)))"
    using keeps_terminal_by_id [OF d _ _ nt] mem by blast
  show ?thesis
    using True
    by (auto simp add: reconcile_def Let_def tasks_ledger_updateStore [OF J] keeps_terminal_refl
        intro!: k)
qed

lemma world_get_dispatch_result:
  "fst (get_dispatch_result J now (Some tid) w) =
     (if tid = [] then w
      else case find_task tid (ledger J w) of
             None \<Rightarrow> w
           | Some task \<Rightarrow> fst (reconcile J now tid task w))"
  by (simp add: get_dispatch_result_def truthy_str_def ledger_def
      split: option.splits prod.splits)

lemma keeps_terminal_step:
  assumes "lossless J" and "distinct (map id' (tasks (ledger J w)))"
  shows "keeps_terminal (tasks (ledger J w)) (tasks (ledger J (recon_step J c w)))"
proof (cases c)
  case (Scan now)
  then show ?thesis by (simp add: keeps_terminal_scan [OF assms(1)])
next
  case (GetResult now tid)
  then show ?thesis
    using keeps_terminal_reconcile [OF assms]
    by (simp add: world_get_dispatch_result keeps_terminal_refl split: option.splits)
next
  case (Outside f k)
  then show ?thesis by (simp add: ledger_outside_change keeps_terminal_refl)
qed

lemma keeps_terminal_all:
  assumes "lossless J" and "distinct (map id' (tasks (ledger J w)))"
  shows "keeps_terminal (tasks (ledger J w)) (tasks (ledger J (fold (recon_step J) calls w)))"
  using assms(2)
proof (induction calls arbitrary: w)
  case Nil
  then show ?case by (simp add: keeps_terminal_refl)
next
  case (Cons c calls)
  have s: "keeps_terminal (tasks (ledger J w)) (tasks (ledger J (recon_step J c w)))"
    by (rule keeps_terminal_step [OF assms(1) Cons.prems])
  then have "distinct (map id' (tasks (ledger J (recon_step J c w))))"
    using Cons.prems by (simp add: keeps_terminal_def)
  then have "keeps_terminal (tasks (ledger J (recon_step J c w)))
               (tasks (ledger J (fold (recon_step J) calls (recon_step J c w))))"
    by (rule Cons.IH)
  with s show ?case
    by (simp add: keeps_terminal_trans)
qed

lemma get_dispatch_result_terminal:
  assumes "find_task tid (ledger J w) = Some t" and "is_terminal (status t)"
  shows "fst (get_dispatch_result J now (Some tid) w) = w"
  using assms by (auto simp: world_get_dispatch_result reconcile_def is_terminal_def)

text \<open>
  Claim C9. A task of the Ledger in a terminal status is left as it is by reconciliation:
  by a run of the Recovery Scanner; by \<open>get_dispatch_result\<close> when the call finds that
  task, which then changes nothing in the world; and, in a Ledger whose tasks have
  distinct identifiers, by every sequence of reconciliations (runs of the scanner and
  calls of \<open>get_dispatch_result\<close> with any identifier, in any order and number, with any
  changes of marker files, artifacts and processes in between). The Ledger read back
  holds the same record at the same place.
\<close>

theorem terminal_task_unchanged_by_reconciliation:
  assumes "lossless J"
    and "i < length (tasks (ledger J w))"
    and "is_terminal (status (tasks (ledger J w) ! i))"
  shows "tasks (ledger J (recoverOrphanedTasks J now w)) ! i = tasks (ledger J w) ! i
       \<and> (find_task tid (ledger J w) = Some (tasks (ledger J w) ! i)
            \<longrightarrow> fst (get_dispatch_result J now (Some tid) w) = w)
       \<and> (distinct (map id' (tasks (ledger J w)))
            \<longrightarrow> tasks (ledger J (reconcile_all J calls w)) ! i = tasks (ledger J w) ! i)"
proof (intro conjI impI)
  show "tasks (ledger J (recoverOrphanedTasks J now w)) ! i = tasks (ledger J w) ! i"
    using keeps_terminal_scan [OF assms(1), of w now] assms(2,3)
    by (simp add: keeps_terminal_def)
next
  assume "find_task tid (ledger J w) = Some (tasks (ledger J w) ! i)"
  then show "fst (get_dispatch_result J now (Some tid) w) = w"
    using assms(3) by (rule get_dispatch_result_terminal)
next
  assume "distinct (map id' (tasks (ledger J w)))"
  from keeps_terminal_all [OF assms(1) this, of calls]
  show "tasks (ledger J (reconcile_all J calls w)) ! i = tasks (ledger J w) ! i"
    using assms(2,3) by (simp add: keeps_terminal_def reconcile_all_def)
qed

theorem terminal_task_unchanged_by_reconciliation_witness:
  "lossless unary_codec
   \<and> distinct (map id' (tasks (ledger unary_codec three_task_world)))
   \<and> is_terminal (status (tasks (ledger unary_codec three_task_world) ! 0))
   \<and> fst (get_dispatch_result unary_codec example_now (Some ''dsp_00000001'') three_task_world)
       = three_task_world
   \<and> tasks (ledger unary_codec (reconcile_all unary_codec example_calls three_task_world)) ! 0
       = example_task ''00000001'' ''completed'' (Some 101)"
proof -
  have l: "tasks (ledger unary_codec three_task_world) = three_tasks"
    by (simp add: three_task_world_def ledger_example_world)
  have d: "distinct (map id' (tasks (ledger unary_codec three_task_world)))"
    by (simp add: l three_tasks_def example_task_def new_task_def genId_def)
  have i: "0 < length (tasks (ledger unary_codec three_task_world))"
    by (simp add: l three_tasks_def)
  have t: "is_terminal (status (tasks (ledger unary_codec three_task_world) ! 0))"
    by (simp add: l three_tasks_def example_task_def is_terminal_def)
  have z: "tasks (ledger unary_codec three_task_world) ! 0 = example_task ''00000001'' ''completed'' (Some 101)"
    by (simp add: l three_tasks_def)
  have f: "find_task ''dsp_00000001'' (ledger unary_codec three_task_world)
             = Some (tasks (ledger unary_codec three_task_world) ! 0)"
    by (simp add: find_task_def l three_tasks_def example_task_def new_task_def genId_def)
  show ?thesis
    using terminal_task_unchanged_by_reconciliation [OF unary_codec_lossless i t,
        of example_now "''dsp_00000001''" example_calls]
      d t z f unary_codec_lossless
    by simp
qed


section \<open>The handler of dispatch\<close>

lemma session_file_not_ledger:
  "join_path (join_path (SESSION_BASE w) tid) x \<noteq> storagePath w FILE"
  by (simp add: join_path_def SESSION_BASE_def orchestration_dir_def storagePath_def STORAGE_DIR_def)

lemma ledger_writeFileSync:
  "p \<noteq> storagePath w FILE \<Longrightarrow> ledger J (writeFileSync p c w) = ledger J w"
  by (rule ledger_cong) (simp_all add: writeFileSync_def)

lemma ledger_spawned: "ledger J (w\<lparr>spawned := x\<rparr>) = ledger J w"
  by (rule ledger_cong) simp_all

lemma tasks_save_task:
  assumes "lossless J"
  shows "tasks (ledger J (save_task J task w)) = tasks (ledger J w) @ [task]"
  by (simp add: save_task_def tasks_ledger_updateStore [OF assms])

text \<open>The task that a call of \<open>dispatch\<close> builds, and the worlds of a call that reaches
  \<^verbatim>\<open>spawn\<close>.\<close>

lemma dispatch_run_valid:
  assumes "arg_model args = Some m" and "m \<noteq> []" and "arg_prompt args = Some p" and "p \<noteq> []"
    and "unknown_model w m = None" and "existsSync w (WRAPPER_PATH w)"
  shows "dispatch_run J hex now outcome args w =
     (let opts = (case arg_options args of None \<Rightarrow> no_options | Some v \<Rightarrow> v);
          taskId = genId ''dsp'' hex;
          sessionDir = join_path (SESSION_BASE w) taskId;
          outputFile = join_path sessionDir (m @ ''-turn-0001.md'');
          promptFile = join_path sessionDir ''prompt.txt'';
          w1 = writeFileSync promptFile p w;
          task = new_task taskId m p opts sessionDir outputFile now;
          req = spawn_request w taskId m sessionDir p opts outputFile promptFile;
          w2 = w1\<lparr>spawned := spawned w1 @ [req]\<rparr>
      in (case outcome of
            Child cp \<Rightarrow>
              let task' = task\<lparr>pid := cp, status := ''running''\<rparr>;
                  w3 = writeMarker sessionDir taskId ''running'' w2;
                  w4 = save_task J task' w3
              in ([w, w1, w2, w3, w4],
                  ok (''Dispatched to '' @ m @ '' '' @ em_dash @ '' task_id: **''
                      @ taskId @ ''** (PID: '' @ show_pid cp @ '')'' @ nl
                      @ ''Session: '' @ sessionDir))
          | SpawnError msg \<Rightarrow>
              let e = ''Failed to spawn: '' @ msg;
                  task' = task\<lparr>status := ''failed'', error := Some e\<rparr>;
                  w4 = save_task J task' w2
              in ([w, w1, w2, w4], err (''Dispatch failed: '' @ e))))"
  using assms by (simp add: dispatch_run_def Let_def)

lemma dispatch_run_ok_valid:
  assumes "dispatch_run J hex now outcome args w = (ws, r)" and "\<not> isError r"
  shows "\<exists>m p cp. arg_model args = Some m \<and> m \<noteq> [] \<and> arg_prompt args = Some p \<and> p \<noteq> []
           \<and> unknown_model w m = None \<and> existsSync w (WRAPPER_PATH w) \<and> outcome = Child cp"
  using assms
  by (auto simp: dispatch_run_def Let_def err_def ok_def
      split: option.splits if_splits spawn_outcome.splits)

lemma storagePath_homedir: "homedir w' = homedir w \<Longrightarrow> storagePath w' f = storagePath w f"
  by (simp add: storagePath_def STORAGE_DIR_def)

lemma SESSION_BASE_homedir: "homedir w' = homedir w \<Longrightarrow> SESSION_BASE w' = SESSION_BASE w"
  by (simp add: SESSION_BASE_def orchestration_dir_def)

lemma save_task_frame:
  "homedir (save_task J t w) = homedir w"
  "spawned (save_task J t w) = spawned w"
  "kill0 (save_task J t w) = kill0 w"
  "bridge_models (save_task J t w) = bridge_models w"
  by (simp_all add: save_task_def updateStore_frame)

lemma marker_not_ledger: "markerPath sd tid \<noteq> storagePath w FILE"
proof
  assume "markerPath sd tid = storagePath w FILE"
  then have "last (markerPath sd tid) = last (storagePath w FILE)" by simp
  then show False
    by (simp add: markerPath_def storagePath_def join_path_def FILE_def)
qed

lemma marker_not_ledger_tmp: "markerPath sd tid \<noteq> storagePath w FILE @ ''.tmp''"
proof
  assume "markerPath sd tid = storagePath w FILE @ ''.tmp''"
  then have "last (markerPath sd tid) = last (storagePath w FILE @ ''.tmp'')" by simp
  then show False
    by (simp add: markerPath_def join_path_def)
qed

lemma dispatch_child_trace:
  assumes J: "lossless J"
    and v: "arg_model args = Some m" "m \<noteq> []" "arg_prompt args = Some p" "p \<noteq> []"
      "unknown_model w m = None" "existsSync w (WRAPPER_PATH w)"
  shows "\<exists>w1 w2 w3 w4 task r.
      dispatch_run J hex now (Child cp) args w = ([w, w1, w2, w3, w4], r) \<and> \<not> isError r
    \<and> spawned w1 = spawned w \<and> length (spawned w2) = Suc (length (spawned w))
    \<and> spawned w3 = spawned w2 \<and> spawned w4 = spawned w2
    \<and> ledger J w1 = ledger J w \<and> ledger J w2 = ledger J w \<and> ledger J w3 = ledger J w
    \<and> tasks (ledger J w4) = tasks (ledger J w) @ [task]
    \<and> id' task = genId ''dsp'' hex \<and> status task = ''running'' \<and> pid task = cp
    \<and> session_dir task = join_path (SESSION_BASE w) (genId ''dsp'' hex)
    \<and> homedir w4 = homedir w
    \<and> readMarker w3 (session_dir task) (id' task) = Some ''running''
    \<and> readMarker w4 (session_dir task) (id' task) = Some ''running''"
proof -
  define opts where "opts = (case arg_options args of None \<Rightarrow> no_options | Some v \<Rightarrow> v)"
  define tid where "tid = genId ''dsp'' hex"
  define sd where "sd = join_path (SESSION_BASE w) tid"
  define out where "out = join_path sd (m @ ''-turn-0001.md'')"
  define pf where "pf = join_path sd ''prompt.txt''"
  define w1 where "w1 = writeFileSync pf p w"
  define req where "req = spawn_request w tid m sd p opts out pf"
  define w2 where "w2 = w1\<lparr>spawned := spawned w1 @ [req]\<rparr>"
  define task where "task = (new_task tid m p opts sd out now)\<lparr>pid := cp, status := ''running''\<rparr>"
  define w3 where "w3 = writeMarker sd tid ''running'' w2"
  define w4 where "w4 = save_task J task w3"
  define r where "r = ok (''Dispatched to '' @ m @ '' '' @ em_dash @ '' task_id: **''
                      @ tid @ ''** (PID: '' @ show_pid cp @ '')'' @ nl @ ''Session: '' @ sd)"
  have run: "dispatch_run J hex now (Child cp) args w = ([w, w1, w2, w3, w4], r)"
    by (simp add: dispatch_run_valid [OF v] Let_def opts_def tid_def sd_def out_def pf_def
        w1_def req_def w2_def task_def w3_def w4_def r_def)
  have h: "homedir w1 = homedir w" "homedir w2 = homedir w" "homedir w3 = homedir w"
    "homedir w4 = homedir w"
    by (simp_all add: w1_def w2_def w3_def w4_def writeFileSync_def writeMarker_def save_task_frame)
  have l1: "ledger J w1 = ledger J w"
    unfolding w1_def pf_def sd_def by (rule ledger_writeFileSync) (rule session_file_not_ledger)
  have l2: "ledger J w2 = ledger J w"
    by (simp add: w2_def ledger_spawned l1)
  have "markerPath sd tid \<noteq> storagePath w2 FILE"
    unfolding markerPath_def sd_def storagePath_homedir [OF h(2)]
    by (rule session_file_not_ledger)
  then have l3: "ledger J w3 = ledger J w"
    by (simp add: w3_def writeMarker_def ledger_writeFileSync l2)
  have l4: "tasks (ledger J w4) = tasks (ledger J w) @ [task]"
    by (simp add: w4_def tasks_save_task [OF J] l3)
  have s: "spawned w1 = spawned w" "length (spawned w2) = Suc (length (spawned w))"
    "spawned w3 = spawned w2" "spawned w4 = spawned w2"
    by (simp_all add: w1_def w2_def w3_def w4_def writeFileSync_def writeMarker_def save_task_frame)
  have t: "id' task = genId ''dsp'' hex" "status task = ''running''" "pid task = cp"
    "session_dir task = join_path (SESSION_BASE w) (genId ''dsp'' hex)"
    by (simp_all add: task_def new_task_def tid_def sd_def)
  have e: "\<not> isError r"
    by (simp add: r_def ok_def)
  have tr: "trim ''running'' = ''running''"
    by (simp add: trim_def is_space_def)
  have m3: "readMarker w3 sd tid = Some ''running''"
    by (simp add: w3_def writeMarker_def writeFileSync_def readMarker_def tr)
  have "markerPath sd tid \<noteq> storagePath w3 FILE"
    and "markerPath sd tid \<noteq> storagePath w3 FILE @ ''.tmp''"
    by (rule marker_not_ledger, rule marker_not_ledger_tmp)
  then have "files w4 (markerPath sd tid) = files w3 (markerPath sd tid)"
    unfolding w4_def save_task_def by (rule files_updateStore)
  then have m4: "readMarker w4 sd tid = Some ''running''"
    using m3 by (simp add: readMarker_def)
  have t': "session_dir task = sd" "id' task = tid"
    by (simp_all add: task_def new_task_def)
  show ?thesis
    using run e s l1 l2 l3 l4 t h(4) m3 m4 unfolding t' [symmetric] by blast
qed

lemma dispatch_spawn_error:
  assumes J: "lossless J"
    and v: "arg_model args = Some m" "m \<noteq> []" "arg_prompt args = Some p" "p \<noteq> []"
      "unknown_model w m = None" "existsSync w (WRAPPER_PATH w)"
  shows "\<exists>w' task.
      dispatch J hex now (SpawnError msg) args w
        = (w', err (''Dispatch failed: Failed to spawn: '' @ msg))
    \<and> tasks (ledger J w') = tasks (ledger J w) @ [task]
    \<and> id' task = genId ''dsp'' hex \<and> status task = ''failed''
    \<and> error task = Some (''Failed to spawn: '' @ msg)
    \<and> prompt task = (if length p > 500 then take 497 p @ ''...'' else p)
    \<and> model task = m
    \<and> options task = Some (case arg_options args of None \<Rightarrow> no_options | Some v \<Rightarrow> v)
    \<and> homedir w' = homedir w \<and> bridge_models w' = bridge_models w
    \<and> files w' (WRAPPER_PATH w) = files w (WRAPPER_PATH w)
    \<and> length (spawned w') = Suc (length (spawned w))
    \<and> argv (last (spawned w')) ! 4 = p"
proof -
  define opts where "opts = (case arg_options args of None \<Rightarrow> no_options | Some v \<Rightarrow> v)"
  define tid where "tid = genId ''dsp'' hex"
  define sd where "sd = join_path (SESSION_BASE w) tid"
  define out where "out = join_path sd (m @ ''-turn-0001.md'')"
  define pf where "pf = join_path sd ''prompt.txt''"
  define w1 where "w1 = writeFileSync pf p w"
  define req where "req = spawn_request w tid m sd p opts out pf"
  define w2 where "w2 = w1\<lparr>spawned := spawned w1 @ [req]\<rparr>"
  define task where "task = (new_task tid m p opts sd out now)
                       \<lparr>status := ''failed'', error := Some (''Failed to spawn: '' @ msg)\<rparr>"
  define w4 where "w4 = save_task J task w2"
  have run: "dispatch J hex now (SpawnError msg) args w
               = (w4, err (''Dispatch failed: Failed to spawn: '' @ msg))"
    by (simp add: dispatch_def dispatch_run_valid [OF v] Let_def opts_def tid_def sd_def out_def
        pf_def w1_def req_def w2_def task_def w4_def)
  have h: "homedir w1 = homedir w" "homedir w2 = homedir w" "homedir w4 = homedir w"
    by (simp_all add: w1_def w2_def w4_def writeFileSync_def save_task_frame)
  have l1: "ledger J w1 = ledger J w"
    unfolding w1_def pf_def sd_def by (rule ledger_writeFileSync) (rule session_file_not_ledger)
  have l2: "ledger J w2 = ledger J w"
    by (simp add: w2_def ledger_spawned l1)
  have l4: "tasks (ledger J w4) = tasks (ledger J w) @ [task]"
    by (simp add: w4_def tasks_save_task [OF J] l2)
  have t: "id' task = genId ''dsp'' hex" "status task = ''failed''"
    "error task = Some (''Failed to spawn: '' @ msg)"
    "prompt task = (if length p > 500 then take 497 p @ ''...'' else p)" "model task = m"
    "options task = Some (case arg_options args of None \<Rightarrow> no_options | Some v \<Rightarrow> v)"
    by (simp_all add: task_def new_task_def tid_def opts_def)
  have b: "bridge_models w4 = bridge_models w"
    by (simp add: w4_def w2_def w1_def save_task_frame writeFileSync_def)
  have f2: "files w2 (WRAPPER_PATH w) = files w (WRAPPER_PATH w)"
    by (simp add: w2_def w1_def writeFileSync_def pf_def sd_def join_path_def WRAPPER_PATH_def
        SESSION_BASE_def)
  have "files w4 (WRAPPER_PATH w) = files w2 (WRAPPER_PATH w)"
    unfolding w4_def save_task_def
    by (rule files_updateStore)
       (simp_all add: storagePath_homedir [OF h(2)] storagePath_def STORAGE_DIR_def join_path_def
          WRAPPER_PATH_def orchestration_dir_def FILE_def)
  with f2 have f: "files w4 (WRAPPER_PATH w) = files w (WRAPPER_PATH w)" by simp
  have s: "spawned w4 = spawned w @ [req]"
    by (simp add: w4_def w2_def w1_def save_task_frame writeFileSync_def)
  have a: "argv req ! 4 = p"
    by (simp add: req_def spawn_request_def wrapperArgs_def)
  show ?thesis
    using run l4 t h(3) b f s a by auto
qed

lemma dispatch_no_wrapper:
  assumes "arg_model args = Some m" "m \<noteq> []" "arg_prompt args = Some p" "p \<noteq> []"
    "unknown_model w m = None" "\<not> existsSync w (WRAPPER_PATH w)"
  shows "dispatch J hex now outcome args w
           = (w, err (''Dispatch wrapper not found at '' @ WRAPPER_PATH w))"
  using assms by (simp add: dispatch_def dispatch_run_def Let_def)

lemma ledger_writeMarker: "ledger J (writeMarker sd tid st w) = ledger J w"
  unfolding writeMarker_def by (rule ledger_writeFileSync) (rule marker_not_ledger)

text \<open>The exit observer sets every row with the task's identifier to \<open>completed\<close> or
  \<open>failed\<close>, whatever the status of the row.\<close>

lemma tasks_on_exit:
  assumes J: "lossless J"
  shows "tasks (ledger J (on_exit J now tid sd out code w)) =
           map (\<lambda>t. if id' t = tid
                     then t\<lparr>status := (if code = Some 0 then ''completed'' else ''failed''),
                            exit_code := Some (case code of None \<Rightarrow> 1 | Some c \<Rightarrow> c),
                            completed_at := Some now,
                            output := (if code = Some 0
                                       then readOutputFile
                                              (writeMarker sd tid ''completed'' w) out
                                       else None),
                            error := (if code = Some 0 then None
                                      else Some (''Process exited with code ''
                                                 @ (case code of None \<Rightarrow> ''null''
                                                    | Some c \<Rightarrow> String_of_int c)))\<rparr>
                     else t) (tasks (ledger J w))"
proof (cases "code = Some 0")
  case True
  then show ?thesis
    by (simp add: on_exit_def Let_def tasks_ledger_updateStore [OF J] ledger_writeMarker)
next
  case False
  then show ?thesis
    by (simp add: on_exit_def Let_def tasks_ledger_updateStore [OF J] ledger_writeMarker)
qed

lemma on_exit_status:
  assumes J: "lossless J"
    and u: "u \<in> set (tasks (ledger J (on_exit J now tid sd out code w)))" and i: "id' u = tid"
  shows "status u = (if code = Some 0 then ''completed'' else ''failed'')"
proof -
  let ?f = "\<lambda>t. t\<lparr>status := (if code = Some 0 then ''completed'' else ''failed''),
                            exit_code := Some (case code of None \<Rightarrow> 1 | Some c \<Rightarrow> c),
                            completed_at := Some now,
                            output := (if code = Some 0
                                       then readOutputFile
                                              (writeMarker sd tid ''completed'' w) out
                                       else None),
                            error := (if code = Some 0 then None
                                      else Some (''Process exited with code ''
                                                 @ (case code of None \<Rightarrow> ''null''
                                                    | Some c \<Rightarrow> String_of_int c)))\<rparr>"
  from u have "u \<in> (\<lambda>t. if id' t = tid then ?f t else t) ` set (tasks (ledger J w))"
    unfolding tasks_on_exit [OF J] set_map .
  then obtain t where t: "u = (if id' t = tid then ?f t else t)"
    by (rule imageE)
  show ?thesis
  proof (cases "id' t = tid")
    case True
    with t have "u = ?f t" by simp
    then have "status u = status (?f t)" by simp
    then show ?thesis by simp
  next
    case False
    with t i show ?thesis by simp
  qed
qed

lemma exit_observer_overwrites_cancelled:
  "ledger_statuses unary_codec
     (example_world [example_task ''00000012'' ''cancelled'' (Some 4242)] [] (\<lambda>p. ESRCH))
     = [''cancelled'']
   \<and> ledger_statuses unary_codec
        (on_exit unary_codec example_now ''dsp_00000012'' (example_session ''00000012'')
           (example_session ''00000012'' @ ''/codex-turn-0001.md'') None
           (example_world [example_task ''00000012'' ''cancelled'' (Some 4242)] [] (\<lambda>p. ESRCH)))
     = [''failed'']"
proof -
  let ?w = "example_world [example_task ''00000012'' ''cancelled'' (Some 4242)] [] (\<lambda>p. ESRCH)"
  have l: "tasks (ledger unary_codec ?w) = [example_task ''00000012'' ''cancelled'' (Some 4242)]"
    by (simp add: ledger_example_world)
  have "\<forall>u \<in> set (tasks (ledger unary_codec
           (on_exit unary_codec example_now ''dsp_00000012'' (example_session ''00000012'')
              (example_session ''00000012'' @ ''/codex-turn-0001.md'') None ?w))).
          id' u = ''dsp_00000012'' \<longrightarrow> status u = ''failed''"
    using on_exit_status [OF unary_codec_lossless, of _ example_now "''dsp_00000012''"
        "example_session ''00000012''" "example_session ''00000012'' @ ''/codex-turn-0001.md''" None ?w]
    by auto
  moreover have "map id' (tasks (ledger unary_codec
           (on_exit unary_codec example_now ''dsp_00000012'' (example_session ''00000012'')
              (example_session ''00000012'' @ ''/codex-turn-0001.md'') None ?w))) = [''dsp_00000012'']"
    unfolding tasks_on_exit [OF unary_codec_lossless] l
    by (simp add: example_task_fields)
  ultimately show ?thesis
    unfolding ledger_statuses_def l
    by (cases "tasks (ledger unary_codec
           (on_exit unary_codec example_now ''dsp_00000012'' (example_session ''00000012'')
              (example_session ''00000012'' @ ''/codex-turn-0001.md'') None ?w))")
       (auto simp: example_task_fields)
qed

text \<open>
  Claim C3, as the code has it. A successful call of \<open>dispatch\<close> passes through five
  worlds: the world at the call, after the prompt file, after \<^verbatim>\<open>spawn\<close>, after the marker,
  after the write of the Ledger. The Ledger is as at the call in the first four, so it
  holds no row for the task while the worker is spawned and while the marker is written;
  the marker says \<open>running\<close> from the fourth world on; the last world has the new row
  appended, in status \<open>running\<close>, which is the first status of the task that the Ledger
  shows. Whenever the exit observer of the call fires, in whatever world, it leaves
  every row with the task's identifier in status \<open>completed\<close> (exit code 0) or \<open>failed\<close>.
\<close>

theorem dispatch_persists_running_after_spawn:
  assumes "lossless J" and "dispatch_run J hex now outcome args w = (ws, r)" and "\<not> isError r"
  shows "\<exists>w1 w2 w3 w4 task.
      ws = [w, w1, w2, w3, w4]
    \<and> spawn_counts ws = [length (spawned w), length (spawned w), Suc (length (spawned w)),
                          Suc (length (spawned w)), Suc (length (spawned w))]
    \<and> ledger J w1 = ledger J w \<and> ledger J w2 = ledger J w \<and> ledger J w3 = ledger J w
    \<and> readMarker w3 (session_dir task) (id' task) = Some ''running''
    \<and> readMarker w4 (session_dir task) (id' task) = Some ''running''
    \<and> tasks (ledger J w4) = tasks (ledger J w) @ [task]
    \<and> id' task = genId ''dsp'' hex \<and> status task = ''running''
    \<and> (\<forall>now' code w'.
          \<forall>u \<in> set (tasks (ledger J
                   (on_exit J now' (id' task) (session_dir task) (output_file task) code w'))).
            id' u = id' task \<longrightarrow> status u = (if code = Some 0 then ''completed'' else ''failed''))"
proof -
  from dispatch_run_ok_valid [OF assms(2,3)] obtain m p cp where
    v: "arg_model args = Some m" "m \<noteq> []" "arg_prompt args = Some p" "p \<noteq> []"
       "unknown_model w m = None" "existsSync w (WRAPPER_PATH w)" and o: "outcome = Child cp"
    by blast
  from dispatch_child_trace [OF assms(1) v, of hex now cp] obtain w1 w2 w3 w4 task r' where
    run: "dispatch_run J hex now (Child cp) args w = ([w, w1, w2, w3, w4], r')"
    and s: "spawned w1 = spawned w" "length (spawned w2) = Suc (length (spawned w))"
      "spawned w3 = spawned w2" "spawned w4 = spawned w2"
    and l: "ledger J w1 = ledger J w" "ledger J w2 = ledger J w" "ledger J w3 = ledger J w"
      "tasks (ledger J w4) = tasks (ledger J w) @ [task]"
    and t: "id' task = genId ''dsp'' hex" "status task = ''running''"
    and m: "readMarker w3 (session_dir task) (id' task) = Some ''running''"
      "readMarker w4 (session_dir task) (id' task) = Some ''running''"
    by blast
  have ws: "ws = [w, w1, w2, w3, w4]"
    using run assms(2) o by simp
  have c: "spawn_counts ws = [length (spawned w), length (spawned w), Suc (length (spawned w)),
                          Suc (length (spawned w)), Suc (length (spawned w))]"
    by (simp add: ws spawn_counts_def s)
  have x: "\<forall>now' code w'.
          \<forall>u \<in> set (tasks (ledger J
                   (on_exit J now' (id' task) (session_dir task) (output_file task) code w'))).
            id' u = id' task \<longrightarrow> status u = (if code = Some 0 then ''completed'' else ''failed'')"
    using on_exit_status [OF assms(1)] by blast
  show ?thesis
    using ws c l t m x by blast
qed

lemma wrapper_world_valid:
  "unknown_model wrapper_world m = None" "existsSync wrapper_world (WRAPPER_PATH wrapper_world)"
  "tasks (ledger unary_codec wrapper_world) = []" "spawned wrapper_world = []"
proof -
  show "tasks (ledger unary_codec wrapper_world) = []"
    by (simp add: wrapper_world_def ledger_example_world)
  show "unknown_model wrapper_world m = None"
    by (simp add: wrapper_world_def unknown_model_def readBridgeConfig_def example_world_def)
  show "existsSync wrapper_world (WRAPPER_PATH wrapper_world)"
    by (simp add: wrapper_world_def example_world_def existsSync_def WRAPPER_PATH_def
        orchestration_dir_def join_path_def example_wrapper_def)
  show "spawned wrapper_world = []"
    by (simp add: wrapper_world_def example_world_def)
qed

lemma say_hi_valid:
  "arg_model say_hi = Some ''codex''" "arg_prompt say_hi = Some ''say hi''"
  by (simp_all add: say_hi_def)

theorem dispatch_persists_running_after_spawn_witness:
  "lossless unary_codec
   \<and> \<not> isError (snd (dispatch_run unary_codec ''0000000c'' example_now (Child (Some 4242)) say_hi
                      wrapper_world))
   \<and> length (fst (dispatch_run unary_codec ''0000000c'' example_now (Child (Some 4242)) say_hi
                      wrapper_world)) = 5
   \<and> ledger_statuses unary_codec
        (last (fst (dispatch_run unary_codec ''0000000c'' example_now (Child (Some 4242)) say_hi
                      wrapper_world))) = [''running'']"
proof -
  let ?run = "dispatch_run unary_codec ''0000000c'' example_now (Child (Some 4242)) say_hi wrapper_world"
  have e: "\<not> isError (snd ?run)"
    using dispatch_child_trace [OF unary_codec_lossless say_hi_valid(1) _ say_hi_valid(2) _
        wrapper_world_valid(1,2), of "''0000000c''" example_now "Some 4242"]
    by auto
  have p: "?run = (fst ?run, snd ?run)" by simp
  from dispatch_persists_running_after_spawn [OF unary_codec_lossless p e]
  show ?thesis
    using e unary_codec_lossless by (auto simp: ledger_statuses_def wrapper_world_valid)
qed

text \<open>
  The claim as stated fails: in a successful call the Ledger holds no row while the worker
  is spawned, and the only row written is in status \<open>running\<close>; no row in status
  \<open>created\<close> is in the Ledger at any moment of the call.
\<close>

theorem dispatch_never_persists_created:
  "\<not> isError (snd (dispatch_run unary_codec ''0000000c'' example_now (Child (Some 4242)) say_hi
                    wrapper_world))
   \<and> spawn_counts (fst (dispatch_run unary_codec ''0000000c'' example_now (Child (Some 4242)) say_hi
                           wrapper_world)) = [0, 0, 1, 1, 1]
   \<and> trace_statuses unary_codec
        (fst (dispatch_run unary_codec ''0000000c'' example_now (Child (Some 4242)) say_hi
                wrapper_world)) = [[], [], [], [], [''running'']]"
  using dispatch_child_trace [OF unary_codec_lossless say_hi_valid(1) _ say_hi_valid(2) _
        wrapper_world_valid(1,2), of "''0000000c''" example_now "Some 4242"]
  by (auto simp: trace_statuses_def ledger_statuses_def spawn_counts_def wrapper_world_valid)

text \<open>When \<^verbatim>\<open>spawn\<close> returns a child without a process identifier, the call answers with
  success and records the task as \<open>running\<close>, without a process.\<close>

lemma dispatch_child_without_pid:
  "\<not> isError (snd (dispatch unary_codec ''0000000d'' example_now (Child None) say_hi wrapper_world))
   \<and> ledger_statuses unary_codec
        (fst (dispatch unary_codec ''0000000d'' example_now (Child None) say_hi wrapper_world))
       = [''running'']
   \<and> map pid (tasks (ledger unary_codec
        (fst (dispatch unary_codec ''0000000d'' example_now (Child None) say_hi wrapper_world))))
       = [None]"
  using dispatch_child_trace [OF unary_codec_lossless say_hi_valid(1) _ say_hi_valid(2) _
        wrapper_world_valid(1,2), of "''0000000d''" example_now None]
  by (auto simp: dispatch_def ledger_statuses_def wrapper_world_valid)

text \<open>
  Claim C6, as the code has it. For a call with a model and a prompt that pass the
  validation: when the wrapper executable is missing the call answers with an error and
  leaves the world as it is, without a row in the Ledger; when \<^verbatim>\<open>spawn\<close> raises the
  call answers with an error and appends to the Ledger a row in status \<open>failed\<close> that
  carries the message.
\<close>

theorem dispatch_spawn_failure_recorded:
  assumes "lossless J"
    and "arg_model args = Some m" and "m \<noteq> []" and "arg_prompt args = Some p" and "p \<noteq> []"
    and "unknown_model w m = None"
  shows "(\<not> existsSync w (WRAPPER_PATH w) \<longrightarrow>
            dispatch J hex now outcome args w
              = (w, err (''Dispatch wrapper not found at '' @ WRAPPER_PATH w)))
       \<and> (existsSync w (WRAPPER_PATH w) \<longrightarrow>
            (\<exists>w' task.
               dispatch J hex now (SpawnError msg) args w
                 = (w', err (''Dispatch failed: Failed to spawn: '' @ msg))
             \<and> tasks (ledger J w') = tasks (ledger J w) @ [task]
             \<and> id' task = genId ''dsp'' hex \<and> status task = ''failed''
             \<and> error task = Some (''Failed to spawn: '' @ msg)))"
proof (intro conjI impI)
  assume "\<not> existsSync w (WRAPPER_PATH w)"
  then show "dispatch J hex now outcome args w
              = (w, err (''Dispatch wrapper not found at '' @ WRAPPER_PATH w))"
    by (rule dispatch_no_wrapper [OF assms(2-6)])
next
  assume "existsSync w (WRAPPER_PATH w)"
  from dispatch_spawn_error [OF assms this, of hex now msg]
  show "\<exists>w' task.
               dispatch J hex now (SpawnError msg) args w
                 = (w', err (''Dispatch failed: Failed to spawn: '' @ msg))
             \<and> tasks (ledger J w') = tasks (ledger J w) @ [task]
             \<and> id' task = genId ''dsp'' hex \<and> status task = ''failed''
             \<and> error task = Some (''Failed to spawn: '' @ msg)"
    by blast
qed

theorem dispatch_spawn_failure_recorded_witness:
  "lossless unary_codec
   \<and> existsSync wrapper_world (WRAPPER_PATH wrapper_world)
   \<and> isError (snd (dispatch unary_codec ''0000000d'' example_now (SpawnError ''spawn ENOMEM'')
                     say_hi wrapper_world))
   \<and> ledger_statuses unary_codec
        (fst (dispatch unary_codec ''0000000d'' example_now (SpawnError ''spawn ENOMEM'')
                say_hi wrapper_world)) = [''failed'']"
  using dispatch_spawn_failure_recorded [OF unary_codec_lossless say_hi_valid(1) _
      say_hi_valid(2) _ wrapper_world_valid(1),
      of "''0000000d''" example_now "SpawnError ''spawn ENOMEM''" "''spawn ENOMEM''"]
    unary_codec_lossless wrapper_world_valid
  by (auto simp: ledger_statuses_def err_def)

lemma empty_world_facts:
  "unknown_model empty_world m = None" "\<not> existsSync empty_world (WRAPPER_PATH empty_world)"
  "tasks (ledger unary_codec empty_world) = []"
  by (simp_all add: empty_world_def unknown_model_def readBridgeConfig_def existsSync_def
      ledger_def readStore_def Let_def DEFAULT_def)

text \<open>
  The claim as stated fails: with the wrapper executable missing the call answers with an
  error, and the world, the Ledger in it, is as before: no \<open>failed\<close> row records the
  attempt.
\<close>

theorem missing_wrapper_leaves_no_row:
  "\<not> existsSync empty_world (WRAPPER_PATH empty_world)
   \<and> isError (snd (dispatch unary_codec ''0000000d'' example_now (Child (Some 4242)) say_hi
                     empty_world))
   \<and> fst (dispatch unary_codec ''0000000d'' example_now (Child (Some 4242)) say_hi empty_world)
       = empty_world
   \<and> ledger_statuses unary_codec
        (fst (dispatch unary_codec ''0000000d'' example_now (Child (Some 4242)) say_hi
                empty_world)) = []"
  using dispatch_no_wrapper [OF say_hi_valid(1) _ say_hi_valid(2) _ empty_world_facts(1,2),
      of unary_codec "''0000000d''" example_now "Child (Some 4242)"]
    empty_world_facts
  by (simp add: ledger_statuses_def err_def)


section \<open>retry\_dispatch\<close>

lemma dispatch_child_prompt:
  assumes "arg_model args = Some m" "m \<noteq> []" "arg_prompt args = Some p" "p \<noteq> []"
    "unknown_model w m = None" "existsSync w (WRAPPER_PATH w)"
  shows "argv (last (spawned (fst (dispatch J hex now (Child cp) args w)))) ! 4 = p
       \<and> length (spawned (fst (dispatch J hex now (Child cp) args w))) = Suc (length (spawned w))
       \<and> \<not> isError (snd (dispatch J hex now (Child cp) args w))"
  by (simp add: dispatch_def dispatch_run_valid [OF assms] Let_def save_task_frame
      writeMarker_def writeFileSync_def spawn_request_def wrapperArgs_def ok_def)

lemma retry_dispatch_found:
  assumes "find_task tid (ledger J w) = Some task" and "tid \<noteq> []"
    and "status task = ''failed'' \<or> status task = ''cancelled''"
  shows "retry_dispatch J hex now outcome (Some tid) w =
           dispatch J hex now outcome
             \<lparr>arg_model = Some (model task), arg_prompt = Some (prompt task),
              arg_options = Some (case options task of None \<Rightarrow> no_options | Some v \<Rightarrow> v)\<rparr> w"
  using assms by (auto simp: retry_dispatch_def truthy_str_def ledger_def)

lemma say_long_valid:
  "arg_model say_long = Some ''codex''" "arg_prompt say_long = Some long_prompt"
  "long_prompt \<noteq> []" "length long_prompt = 501"
  "(if length long_prompt > 500 then take 497 long_prompt @ ''...'' else long_prompt)
     = replicate 497 (CHR ''a'') @ ''...''"
  by (simp_all add: say_long_def long_prompt_def)

text \<open>
  Claim C4 at a prompt of 501 characters. \<open>dispatch\<close> hands the whole prompt to \<^verbatim>\<open>spawn\<close>
  and records the task, failed, with the prompt cut to 497 characters and three dots;
  \<open>retry_dispatch\<close> of that task calls \<^verbatim>\<open>spawn\<close> with the recorded prompt of 500
  characters, not with the prompt that was passed to \<open>dispatch\<close>.
\<close>

theorem retry_sends_truncated_prompt:
  "arg_prompt say_long = Some long_prompt
   \<and> length long_prompt = 501
   \<and> argv (last (spawned retry_world1)) ! 4 = long_prompt
   \<and> ledger_statuses unary_codec retry_world1 = [''failed'']
   \<and> length (spawned retry_world2) = 2
   \<and> argv (last (spawned retry_world2)) ! 4 = replicate 497 (CHR ''a'') @ ''...''
   \<and> argv (last (spawned retry_world2)) ! 4 \<noteq> long_prompt"
proof -
  from dispatch_spawn_error [OF unary_codec_lossless say_long_valid(1) _ say_long_valid(2,3)
      wrapper_world_valid(1,2), of "''0000000e''" example_now "''spawn ENOMEM''"]
  obtain w' task where
    d: "dispatch unary_codec ''0000000e'' example_now (SpawnError ''spawn ENOMEM'') say_long
          wrapper_world = (w', err (''Dispatch failed: Failed to spawn: '' @ ''spawn ENOMEM''))"
    and l: "tasks (ledger unary_codec w') = tasks (ledger unary_codec wrapper_world) @ [task]"
    and t: "id' task = genId ''dsp'' ''0000000e''" "status task = ''failed''"
      "prompt task = (if length long_prompt > 500 then take 497 long_prompt @ ''...'' else long_prompt)"
      "model task = ''codex''"
    and f: "homedir w' = homedir wrapper_world" "bridge_models w' = bridge_models wrapper_world"
      "files w' (WRAPPER_PATH wrapper_world) = files wrapper_world (WRAPPER_PATH wrapper_world)"
    and s: "length (spawned w') = Suc (length (spawned wrapper_world))"
      "argv (last (spawned w')) ! 4 = long_prompt"
    by auto
  have w1: "retry_world1 = w'"
    by (simp add: retry_world1_def d)
  have l': "tasks (ledger unary_codec w') = [task]"
    using l by (simp add: wrapper_world_valid)
  have p: "prompt task = replicate 497 (CHR ''a'') @ ''...''"
    using t(3) by (simp only: say_long_valid(5))
  have fnd: "find_task ''dsp_0000000e'' (ledger unary_codec w') = Some task"
    using t(1) by (simp add: find_task_def l' genId_def)
  have v: "unknown_model w' ''codex'' = None" "existsSync w' (WRAPPER_PATH w')"
    using f wrapper_world_valid(1) [of "''codex''"] wrapper_world_valid(2)
    by (simp_all add: unknown_model_def readBridgeConfig_def existsSync_def WRAPPER_PATH_def
        orchestration_dir_def)
  have r: "retry_world2 = fst (dispatch unary_codec ''0000000f'' example_now (Child (Some 4243))
             \<lparr>arg_model = Some (model task), arg_prompt = Some (prompt task),
              arg_options = Some (case options task of None \<Rightarrow> no_options | Some v \<Rightarrow> v)\<rparr> w')"
    unfolding retry_world2_def w1
    by (subst retry_dispatch_found [OF fnd]) (simp_all add: t(2))
  have c: "argv (last (spawned retry_world2)) ! 4 = prompt task
           \<and> length (spawned retry_world2) = Suc (length (spawned w'))"
    unfolding r
    using dispatch_child_prompt [of "\<lparr>arg_model = Some (model task), arg_prompt = Some (prompt task),
              arg_options = Some (case options task of None \<Rightarrow> no_options | Some v \<Rightarrow> v)\<rparr>"
          "''codex''" "prompt task" w' unary_codec "''0000000f''" example_now "Some 4243"] v t(4) p
    by simp
  have ne: "replicate 497 (CHR ''a'') @ ''...'' \<noteq> long_prompt"
  proof
    assume "replicate 497 (CHR ''a'') @ ''...'' = long_prompt"
    then have "length (replicate 497 (CHR ''a'') @ ''...'') = length long_prompt" by simp
    then show False by (simp add: long_prompt_def)
  qed
  show ?thesis
    using say_long_valid(2,4) s l' t(2) c p ne
    by (simp add: w1 ledger_statuses_def wrapper_world_valid)
qed


section \<open>Markers under the two reconciliation paths\<close>

lemma readStore_ledger: "readStore J w FILE DEFAULT = ledger J w"
  by (simp add: ledger_def)

text \<open>\<open>get_dispatch_result\<close> adopts every terminal value of the marker of a running task,
  and reads the output artifact when the value is \<open>completed\<close>.\<close>

lemma reconcile_adopts_marker:
  assumes J: "lossless J" and "status task = ''running''"
    and "readMarker w (session_dir task) (id' task) = Some mk" and "is_terminal mk"
  shows "tasks (ledger J (fst (reconcile J now tid task w))) =
           map (\<lambda>t. if id' t = tid
                     then t\<lparr>status := mk, completed_at := Some now,
                            output := (if mk = ''completed''
                                       then readOutputFile w (output_file task) else None)\<rparr>
                     else t) (tasks (ledger J w))"
  using assms(2-4)
  by (auto simp: reconcile_def Let_def truthy_str_def is_terminal_def
      tasks_ledger_updateStore [OF J])

text \<open>The Recovery Scanner adopts the values \<open>completed\<close> and \<open>failed\<close> of the marker.\<close>

lemma recover_task_adopts_marker:
  assumes "status t = ''running'' \<or> status t = ''created''"
    and "readMarker w (session_dir t) (id' t) = Some mk"
    and "mk = ''completed'' \<or> mk = ''failed''"
  shows "recover_task w now t =
           t\<lparr>status := mk, completed_at := Some now,
             output := (if mk = ''completed'' then readOutputFile w (output_file t) else None),
             error := (if mk = ''failed'' then Some ''Recovered from orphaned state'' else None)\<rparr>"
  using assms by (auto simp: recover_task_def Let_def)

lemma cancelled_world_facts:
  "tasks (ledger unary_codec cancelled_world) = [example_task ''00000010'' ''running'' (Some 4242)]"
  "readMarker cancelled_world (example_session ''00000010'') ''dsp_00000010'' = Some ''cancelled''"
  "kill0 cancelled_world p = ESRCH"
proof -
  show "tasks (ledger unary_codec cancelled_world) = [example_task ''00000010'' ''running'' (Some 4242)]"
    by (simp add: cancelled_world_def ledger_example_world)
  show "readMarker cancelled_world (example_session ''00000010'') ''dsp_00000010'' = Some ''cancelled''"
    by (simp add: cancelled_world_def example_world_def readMarker_def markerPath_def join_path_def
        example_session_def trim_def is_space_def)
  show "kill0 cancelled_world p = ESRCH"
    by (simp add: cancelled_world_def example_world_def)
qed

text \<open>
  Claim C2 at a marker that says \<open>cancelled\<close>. The task is \<open>running\<close> in the Ledger and
  its process is gone. \<open>get_dispatch_result\<close> adopts the marker: the task becomes
  \<open>cancelled\<close>. The Recovery Scanner does not: it compares the marker with \<open>completed\<close>
  and \<open>failed\<close> only, goes on to the probe and records the task as \<open>failed\<close>, orphaned.
\<close>

theorem scanner_ignores_cancelled_marker:
  "readMarker cancelled_world (example_session ''00000010'') ''dsp_00000010'' = Some ''cancelled''
   \<and> ledger_statuses unary_codec cancelled_world = [''running'']
   \<and> ledger_statuses unary_codec
        (fst (get_dispatch_result unary_codec example_now (Some ''dsp_00000010'') cancelled_world))
       = [''cancelled'']
   \<and> ledger_statuses unary_codec (recoverOrphanedTasks unary_codec example_now cancelled_world)
       = [''failed'']
   \<and> map error (tasks (ledger unary_codec
         (recoverOrphanedTasks unary_codec example_now cancelled_world)))
       = [Some ''Orphaned task recovered on startup (process not alive)'']"
proof -
  let ?t = "example_task ''00000010'' ''running'' (Some 4242)"
  note f = cancelled_world_facts
  have m: "readMarker cancelled_world (session_dir ?t) (id' ?t) = Some ''cancelled''"
    by (simp add: example_task_fields f(2))
  have fnd: "find_task ''dsp_00000010'' (ledger unary_codec cancelled_world) = Some ?t"
    by (simp add: find_task_def f(1) example_task_fields)
  have g: "fst (get_dispatch_result unary_codec example_now (Some ''dsp_00000010'') cancelled_world)
             = fst (reconcile unary_codec example_now ''dsp_00000010'' ?t cancelled_world)"
    by (simp add: world_get_dispatch_result fnd)
  have a: "ledger_statuses unary_codec
        (fst (get_dispatch_result unary_codec example_now (Some ''dsp_00000010'') cancelled_world))
       = [''cancelled'']"
    unfolding g ledger_statuses_def
    by (subst reconcile_adopts_marker [OF unary_codec_lossless _ m])
       (simp_all add: example_task_fields is_terminal_def f(1))
  have r: "recover_task cancelled_world example_now ?t =
             ?t\<lparr>status := ''failed'', completed_at := Some example_now,
                error := Some ''Orphaned task recovered on startup (process not alive)''\<rparr>"
    using m by (simp add: recover_task_def Let_def example_task_fields isProcessAlive_def f(3))
  have b: "tasks (ledger unary_codec (recoverOrphanedTasks unary_codec example_now cancelled_world))
             = [recover_task cancelled_world example_now ?t]"
    by (simp add: tasks_recoverOrphanedTasks [OF unary_codec_lossless] f(1))
  show ?thesis
    using f(2) a by (simp add: ledger_statuses_def f(1) b r example_task_fields)
qed

text \<open>The scenario of the specification: the marker of a running task says \<open>completed\<close>
  and its output artifact holds \<open>hello\<close>; \<open>get_dispatch_result\<close> answers with the status
  \<open>completed\<close> and the output.\<close>

lemma get_dispatch_result_hello:
  "snd (get_dispatch_result unary_codec example_now (Some ''dsp_00000011'') hello_world) =
     Some (ok (join_with nl
       [''**Task**: dsp_00000011'', ''**Model**: codex'', ''**Status**: completed'',
        ''**Created**: 2026-02-09T10:00:00.000Z'', ''**Completed**: 2026-02-09T12:00:00.000Z'',
        nl @ ''**Output**:'' @ nl @ ''hello'']))"
proof -
  let ?t = "example_task ''00000011'' ''running'' (Some 4242)"
  let ?w' = "fst (reconcile unary_codec example_now ''dsp_00000011'' ?t hello_world)"
  have l: "tasks (ledger unary_codec hello_world) = [?t]"
    by (simp add: hello_world_def ledger_example_world)
  have m: "readMarker hello_world (session_dir ?t) (id' ?t) = Some ''completed''"
    by (simp add: hello_world_def example_world_def readMarker_def markerPath_def join_path_def
        example_session_def trim_def is_space_def example_task_fields nl_def)
  have o: "readOutputFile hello_world (example_session ''00000011'' @ ''/codex-turn-0001.md'')
             = Some ''hello''"
    by (simp add: hello_world_def example_world_def readOutputFile_def example_session_def)
  have fnd: "find_task ''dsp_00000011'' (ledger unary_codec hello_world) = Some ?t"
    by (simp add: find_task_def l example_task_fields)
  have t': "tasks (ledger unary_codec ?w') =
              [?t\<lparr>status := ''completed'', completed_at := Some example_now, output := Some ''hello''\<rparr>]"
    by (subst reconcile_adopts_marker [OF unary_codec_lossless _ m])
       (simp_all add: example_task_fields is_terminal_def l o)
  have sn: "snd (reconcile unary_codec example_now ''dsp_00000011'' ?t hello_world)
            = Some (?t\<lparr>status := ''completed'', completed_at := Some example_now,
                         output := Some ''hello''\<rparr>)"
  proof -
    have "snd (reconcile unary_codec example_now ''dsp_00000011'' ?t hello_world)
            = find_task ''dsp_00000011'' (ledger unary_codec ?w')"
      using m by (simp add: reconcile_def Let_def truthy_str_def example_task_fields readStore_ledger)
    then show ?thesis
      by (simp add: find_task_def t' example_task_fields)
  qed
  obtain w2 where rc: "reconcile unary_codec example_now ''dsp_00000011'' ?t hello_world =
      (w2, Some (?t\<lparr>status := ''completed'', completed_at := Some example_now,
                     output := Some ''hello''\<rparr>))"
    using sn by (cases "reconcile unary_codec example_now ''dsp_00000011'' ?t hello_world") simp
  have g: "snd (get_dispatch_result unary_codec example_now (Some ''dsp_00000011'') hello_world) =
             Some (ok (join_with nl (result_lines w2
               (?t\<lparr>status := ''completed'', completed_at := Some example_now,
                    output := Some ''hello''\<rparr>))))"
    by (simp add: get_dispatch_result_def truthy_str_def readStore_ledger fnd rc)
  show ?thesis
    unfolding g
    by (simp add: result_lines_def output_lines_def display_output_def truthy_str_def
        example_task_def new_task_def genId_def example_now_def)
qed

end
